theory Spec2Isabelle
  imports Complex_Main
begin

section \<open>Values shared by the client modules\<close>

text \<open>
  A value that a failed backend call rejects with, or that a \<^verbatim>\<open>throw\<close> raises.  The code
  reads three things from it: \<^verbatim>\<open>error?.name\<close>, \<^verbatim>\<open>error?.message\<close> (either may be
  missing on a thrown value of type \<^verbatim>\<open>any\<close>) and \<^verbatim>\<open>error instanceof Error\<close>.
\<close>

record js_error =
  err_name :: "string option"
  err_message :: "string option"
  is_Error :: bool

text \<open>The result of an awaited call: the promise resolves with a value or rejects.\<close>

datatype 'a outcome = Resolved 'a | Rejected js_error

text \<open>
  \<^verbatim>\<open>String.prototype.includes\<close>.  Strings are byte lists (UTF-8); every pattern the code
  searches for is ASCII, so the byte-wise search finds what the code-unit search of the
  source finds.
\<close>

fun startsWith :: "string \<Rightarrow> string \<Rightarrow> bool" where
  "startsWith s [] = True"
| "startsWith [] (p # ps) = False"
| "startsWith (c # cs) (p # ps) = (c = p \<and> startsWith cs ps)"

fun str_includes :: "string \<Rightarrow> string \<Rightarrow> bool" where
  "str_includes [] pat = (pat = [])"
| "str_includes (c # cs) pat = (startsWith (c # cs) pat \<or> str_includes cs pat)"

text \<open>\<^verbatim>\<open>error?.message?.includes(pat)\<close>: a missing message makes the test falsy.\<close>

definition message_includes :: "js_error \<Rightarrow> string \<Rightarrow> bool" where
  "message_includes e pat = (case err_message e of None \<Rightarrow> False | Some m \<Rightarrow> str_includes m pat)"

section \<open>The data model (\<^verbatim>\<open>lib/supabase.ts\<close> and the SDK types the context imports)\<close>

text \<open>
  \<^verbatim>\<open>User\<close> and \<^verbatim>\<open>Session\<close> come from the SDK; the context reads \<^verbatim>\<open>user.id\<close> and
  \<^verbatim>\<open>session.user\<close> only.  The field \<^verbatim>\<open>id\<close> is written \<open>uid\<close>.
\<close>

record User =
  uid :: string
  email :: "string option"

record Session =
  access_token :: string
  expires_at :: "int option"
  session_user :: User

text \<open>\<^verbatim>\<open>interface UserProfile\<close>; an optional field (\<^verbatim>\<open>board?: string\<close>) is an option.\<close>

record UserProfile =
  profile_id :: string
  first_name :: string
  last_name :: string
  grade :: string
  board :: "string option"
  area :: "string option"
  profile_picture_url :: "string option"
  subject_group :: "string option"
  subjects :: "string list option"
  created_at :: string
  updated_at :: string

text \<open>
  A key of an object that may lack it: the key is missing, or it is there with a value
  that may be \<^verbatim>\<open>undefined\<close>.  A spread copies a key that is there, whatever its value.
\<close>

datatype 'a object_key = Key_absent | Key_present "'a option"

text \<open>
  \<^verbatim>\<open>Partial<UserProfile>\<close>, the type of \<^verbatim>\<open>updates\<close>.  For \<^verbatim>\<open>first_name\<close>,
  \<^verbatim>\<open>last_name\<close> and \<^verbatim>\<open>grade\<close> the record holds what \<^verbatim>\<open>updates.first_name\<close> etc.
  evaluate to (\<open>None\<close> is \<^verbatim>\<open>undefined\<close>, from a missing key or from a stored
  \<^verbatim>\<open>undefined\<close>): the code reads these three and overwrites what the spread gave them.
  Every other field records whether the key is there.
\<close>

record UserProfile_partial =
  upd_id :: "string object_key"
  upd_first_name :: "string option"
  upd_last_name :: "string option"
  upd_grade :: "string option"
  upd_board :: "string object_key"
  upd_area :: "string object_key"
  upd_profile_picture_url :: "string object_key"
  upd_subject_group :: "string object_key"
  upd_subjects :: "string list object_key"
  upd_created_at :: "string object_key"
  upd_updated_at :: "string object_key"

text \<open>
  The object \<^verbatim>\<open>profileData\<close> that \<^verbatim>\<open>updateProfile\<close> builds: the three required fields are
  always strings, every other field is present only if the spread produced it.
\<close>

record profile_data =
  pd_id :: "string option"
  pd_first_name :: string
  pd_last_name :: string
  pd_grade :: string
  pd_board :: "string option"
  pd_area :: "string option"
  pd_profile_picture_url :: "string option"
  pd_subject_group :: "string option"
  pd_subjects :: "string list option"
  pd_created_at :: "string option"
  pd_updated_at :: "string option"

record UserProgressStats =
  stats_id :: string
  stats_user_id :: string
  study_streak_days :: int
  total_study_time_minutes :: int
  completed_lessons :: int
  total_tests_taken :: int
  average_test_score :: real
  ai_sessions_count :: int
  weekly_study_time :: int
  monthly_study_time :: int
  last_study_date :: "string option"
  stats_created_at :: string
  stats_updated_at :: string

record SubjectProgress =
  sp_id :: string
  sp_user_id :: string
  subject_name :: string
  progress_percentage :: int
  completed_topics :: int
  total_topics :: int
  last_accessed :: string
  sp_created_at :: string
  sp_updated_at :: string

text \<open>What \<^verbatim>\<open>getUserSubjectGroup\<close> resolves with; the context reads \<^verbatim>\<open>.subjects.length\<close>.\<close>

record SubjectGroup =
  sg_subjects :: "string list"

datatype session_type = Lesson | Test | Ai_tutor | Materials

type_synonym File = string

datatype connection_status = Connected | Disconnected | Checking

section \<open>The services the context calls\<close>

text \<open>
  \<^verbatim>\<open>AuthService\<close>, \<^verbatim>\<open>ProgressService\<close> and \<^verbatim>\<open>SubjectGroupService\<close> are external to the
  context: each method is a parameter giving, for its arguments, how the awaited call
  settles.  Every action below calls each method at most once.
\<close>

record services =
  AuthService_getCurrentUser :: "User option outcome"
  AuthService_getUserProfile :: "string \<Rightarrow> UserProfile option outcome"
  AuthService_updateUserProfile :: "string \<Rightarrow> profile_data \<Rightarrow> File option \<Rightarrow> UserProfile option outcome"
  AuthService_signOut :: "unit outcome"
  ProgressService_getUserProgress :: "string \<Rightarrow> UserProgressStats option outcome"
  ProgressService_getSubjectProgress :: "string \<Rightarrow> SubjectProgress list outcome"
  ProgressService_recordStudySession ::
    "string \<Rightarrow> session_type \<Rightarrow> string \<Rightarrow> int \<Rightarrow> int option \<Rightarrow> unit outcome"
  ProgressService_initializeUserProgress :: "string \<Rightarrow> unit outcome"
  ProgressService_initializeSubjects :: "string \<Rightarrow> unit outcome"
  SubjectGroupService_getUserSubjectGroup :: "string \<Rightarrow> SubjectGroup option outcome"

text \<open>A service invocation, with its arguments, as the context issues it.\<close>

datatype backend_call =
    GetCurrentUser
  | GetUserProfile string
  | UpdateUserProfile string profile_data "File option"
  | SignOut
  | GetUserProgress string
  | GetSubjectProgress string
  | RecordStudySession string session_type string int "int option"
  | InitializeUserProgress string
  | InitializeSubjects string
  | GetUserSubjectGroup string

section \<open>The state of \<^verbatim>\<open>AuthProvider\<close>\<close>

text \<open>
  The ten \<^verbatim>\<open>useState\<close> cells, the \<^verbatim>\<open>localStorage\<close> entry under the key
  \<^verbatim>\<open>'isNewUser'\<close> (the only key the context touches), and the trace of the service calls
  issued so far, which the model keeps to say which calls an action makes.
\<close>

record auth_state =
  user :: "User option"
  profile :: "UserProfile option"
  progressStats :: "UserProgressStats option"
  subjectProgress :: "SubjectProgress list"
  session :: "Session option"
  loading :: bool
  error :: "string option"
  isNewUser :: bool
  hasSubjectGroup :: bool
  connectionStatus :: connection_status
  localStorage_isNewUser :: "string option"
  backend_calls :: "backend_call list"

text \<open>The state of the first render (lines 46-55), with whatever the browser has stored.\<close>

definition initial_state :: "string option \<Rightarrow> auth_state" where
  "initial_state stored =
     \<lparr>user = None, profile = None, progressStats = None, subjectProgress = [],
      session = None, loading = True, error = None, isNewUser = False,
      hasSubjectGroup = False, connectionStatus = Checking,
      localStorage_isNewUser = stored, backend_calls = []\<rparr>"

definition issue :: "backend_call \<Rightarrow> auth_state \<Rightarrow> auth_state" where
  "issue c s = s\<lparr>backend_calls := backend_calls s @ [c]\<rparr>"

section \<open>Error classification: \<^verbatim>\<open>handleSupabaseError\<close>\<close>

definition siren :: string where
  "siren = [CHR 0xF0, CHR 0x9F, CHR 0x9A, CHR 0xA8]"

definition nl :: string where
  "nl = [CHR 0x0A]"

definition cannot_connect_message :: string where
  "cannot_connect_message =
     siren @ '' Cannot Connect to Supabase'' @ nl @ nl @
     ''Your Supabase project appears to be unavailable.'' @ nl @ nl @
     ''To fix this:'' @ nl @
     ''1. Go to https://supabase.com/dashboard'' @ nl @
     ''2. Check if your project is paused and resume it'' @ nl @
     ''3. Wait 2-3 minutes for full restart'' @ nl @
     ''4. Refresh this page''"

definition project_issue_message :: string where
  "project_issue_message =
     siren @ '' Supabase Project Issue'' @ nl @ nl @
     ''Your Supabase project appears to be paused or experiencing database issues.'' @ nl @ nl @
     ''To fix this:'' @ nl @
     ''1. Go to https://supabase.com/dashboard'' @ nl @
     ''2. Find your project and click '' @ [CHR 0x22] @ ''Resume'' @ [CHR 0x22] @ '' if paused'' @ nl @
     ''3. Wait 2-3 minutes for full restart'' @ nl @
     ''4. Try again''"

definition connection_timeout_message :: string where
  "connection_timeout_message =
     siren @ '' Connection Timeout'' @ nl @ nl @
     ''Unable to connect to Supabase. Your project may be paused.'' @ nl @ nl @
     ''Please check https://supabase.com/dashboard''"

definition handleSupabaseError :: "js_error \<Rightarrow> string \<Rightarrow> auth_state \<Rightarrow> auth_state" where
  "handleSupabaseError e ctx s =
     (if err_name e = Some ''SupabaseConnectionError'' \<or> err_name e = Some ''SupabaseTimeoutError''
      then s\<lparr>connectionStatus := Disconnected, error := err_message e\<rparr>
      else if message_includes e ''Failed to fetch'' \<or>
              message_includes e ''NetworkError'' \<or>
              message_includes e ''Connection timeout'' \<or>
              message_includes e ''fetch is not defined''
      then s\<lparr>connectionStatus := Disconnected, error := Some cannot_connect_message\<rparr>
      else if message_includes e ''Database error saving new user'' \<or>
              message_includes e ''unexpected_failure''
      then s\<lparr>connectionStatus := Disconnected, error := Some project_issue_message\<rparr>
      else s\<lparr>error := (if is_Error e then err_message e else Some (ctx @ '' failed''))\<rparr>)"

section \<open>The three loaders\<close>

text \<open>
  \<^verbatim>\<open>loadUserProfile\<close> (lines 115-127).  The part before the \<^verbatim>\<open>await\<close> clears the error and
  issues the call; the part after it stores the profile or classifies the failure.
\<close>

definition loadUserProfile_settled :: "UserProfile option outcome \<Rightarrow> auth_state \<Rightarrow> auth_state" where
  "loadUserProfile_settled r s =
     (case r of
        Resolved userProfile \<Rightarrow> s\<lparr>profile := userProfile, connectionStatus := Connected\<rparr>
      | Rejected e \<Rightarrow> (handleSupabaseError e ''Load user profile'' s)\<lparr>profile := None\<rparr>)"

definition loadUserProfile :: "services \<Rightarrow> string \<Rightarrow> auth_state \<Rightarrow> auth_state" where
  "loadUserProfile svc userId s =
     loadUserProfile_settled (AuthService_getUserProfile svc userId)
       (issue (GetUserProfile userId) (s\<lparr>error := None\<rparr>))"

text \<open>
  \<^verbatim>\<open>loadUserProgress\<close> (lines 129-146): two awaited calls in one \<^verbatim>\<open>try\<close>; the \<^verbatim>\<open>catch\<close>
  logs to the console and does nothing else.
\<close>

definition loadUserProgress_subjects_settled ::
    "SubjectProgress list outcome \<Rightarrow> auth_state \<Rightarrow> auth_state" where
  "loadUserProgress_subjects_settled r s =
     (case r of
        Resolved subjs \<Rightarrow> s\<lparr>subjectProgress := subjs\<rparr>
      | Rejected e \<Rightarrow> s)"

definition loadUserProgress :: "services \<Rightarrow> string \<Rightarrow> auth_state \<Rightarrow> auth_state" where
  "loadUserProgress svc userId s =
     (case ProgressService_getUserProgress svc userId of
        Rejected e \<Rightarrow> issue (GetUserProgress userId) s
      | Resolved stats \<Rightarrow>
          loadUserProgress_subjects_settled (ProgressService_getSubjectProgress svc userId)
            (issue (GetSubjectProgress userId)
              ((issue (GetUserProgress userId) s)\<lparr>progressStats := stats\<rparr>)))"

text \<open>
  \<^verbatim>\<open>checkSubjectGroupSelection\<close> (lines 148-159): \<^verbatim>\<open>!!(subjectGroup &&
  subjectGroup.subjects.length > 0)\<close>; the \<^verbatim>\<open>catch\<close> stores \<^verbatim>\<open>false\<close>.
\<close>

definition checkSubjectGroupSelection_settled ::
    "SubjectGroup option outcome \<Rightarrow> auth_state \<Rightarrow> auth_state" where
  "checkSubjectGroupSelection_settled r s =
     (case r of
        Resolved subjectGroup \<Rightarrow>
          s\<lparr>hasSubjectGroup :=
              (case subjectGroup of None \<Rightarrow> False | Some g \<Rightarrow> length (sg_subjects g) > 0)\<rparr>
      | Rejected e \<Rightarrow> s\<lparr>hasSubjectGroup := False\<rparr>)"

definition checkSubjectGroupSelection :: "services \<Rightarrow> string \<Rightarrow> auth_state \<Rightarrow> auth_state" where
  "checkSubjectGroupSelection svc userId s =
     checkSubjectGroupSelection_settled (SubjectGroupService_getUserSubjectGroup svc userId)
       (issue (GetUserSubjectGroup userId) s)"

text \<open>
  The loaders started without \<^verbatim>\<open>await\<close> (lines 232-234 and 287-289) run up to their first
  \<^verbatim>\<open>await\<close> at once: \<^verbatim>\<open>loadUserProfile\<close> clears the error, and the three first calls are
  issued.  What follows each \<^verbatim>\<open>await\<close> runs later, as an event of its own.
\<close>

definition start_loads :: "string \<Rightarrow> auth_state \<Rightarrow> auth_state" where
  "start_loads userId s =
     issue (GetUserSubjectGroup userId)
       (issue (GetUserProgress userId)
         (issue (GetUserProfile userId) (s\<lparr>error := None\<rparr>)))"

definition loadUserProgress_stats_settled ::
    "string \<Rightarrow> UserProgressStats option outcome \<Rightarrow> auth_state \<Rightarrow> auth_state" where
  "loadUserProgress_stats_settled userId r s =
     (case r of
        Resolved stats \<Rightarrow> issue (GetSubjectProgress userId) (s\<lparr>progressStats := stats\<rparr>)
      | Rejected e \<Rightarrow> s)"

section \<open>The actions of the context\<close>

text \<open>
  An action that can throw returns the thrown value (or \<open>None\<close>) with the state it leaves.
  The state variables an action reads (\<^verbatim>\<open>user\<close>, \<^verbatim>\<open>profile\<close>, \<^verbatim>\<open>isNewUser\<close>) are those
  of the render that created it, that is, of the state the action starts in.
\<close>

definition no_user_logged_in :: js_error where
  "no_user_logged_in =
     \<lparr>err_name = Some ''Error'', err_message = Some ''No user logged in'', is_Error = True\<rparr>"

definition refreshProgress :: "services \<Rightarrow> auth_state \<Rightarrow> auth_state" where
  "refreshProgress svc s =
     (case user s of
        Some u \<Rightarrow> loadUserProgress svc (uid u) s
      | None \<Rightarrow> s)"

definition recordStudySession ::
    "services \<Rightarrow> session_type \<Rightarrow> string \<Rightarrow> int \<Rightarrow> int option \<Rightarrow> auth_state
      \<Rightarrow> js_error option \<times> auth_state" where
  "recordStudySession svc sessionType subject durationMinutes score s =
     (case user s of
        None \<Rightarrow> (Some no_user_logged_in, s)
      | Some u \<Rightarrow>
          (let s1 = issue (RecordStudySession (uid u) sessionType subject durationMinutes score) s
           in case ProgressService_recordStudySession svc (uid u) sessionType subject
                     durationMinutes score of
                Resolved _ \<Rightarrow> (None, refreshProgress svc s1)
              | Rejected e \<Rightarrow> (Some e, handleSupabaseError e ''Record study session'' s1)))"

definition retryProfileLoad :: "services \<Rightarrow> auth_state \<Rightarrow> auth_state" where
  "retryProfileLoad svc s =
     (case user s of
        Some u \<Rightarrow>
          checkSubjectGroupSelection svc (uid u)
            (loadUserProgress svc (uid u) (loadUserProfile svc (uid u) s))
      | None \<Rightarrow> s)"

text \<open>\<^verbatim>\<open>signOut\<close> (lines 374-397); \<^verbatim>\<open>finally\<close> runs on both paths.\<close>

definition signOut :: "services \<Rightarrow> auth_state \<Rightarrow> js_error option \<times> auth_state" where
  "signOut svc s =
     (let s1 = issue SignOut
                 (s\<lparr>loading := True, error := None,
                    localStorage_isNewUser := None, isNewUser := False\<rparr>)
      in case AuthService_signOut svc of
           Resolved _ \<Rightarrow>
             (None,
              s1\<lparr>user := None, profile := None, progressStats := None, subjectProgress := [],
                 session := None, hasSubjectGroup := False, connectionStatus := Connected,
                 loading := False\<rparr>)
         | Rejected e \<Rightarrow> (Some e, (handleSupabaseError e ''Sign out'' s1)\<lparr>loading := False\<rparr>))"

subsection \<open>\<^verbatim>\<open>updateProfile\<close>\<close>

text \<open>\<^verbatim>\<open>a || b\<close> on values that are a string or missing: the first if it is truthy.\<close>

definition truthy :: "string option \<Rightarrow> bool" where
  "truthy a = (case a of None \<Rightarrow> False | Some v \<Rightarrow> v \<noteq> [])"

definition js_or :: "string option \<Rightarrow> string option \<Rightarrow> string option" where
  "js_or a b = (if truthy a then a else b)"

text \<open>\<^verbatim>\<open>x || ''\<close>, which always is a string.\<close>

definition or_empty :: "string option \<Rightarrow> string" where
  "or_empty a = (case js_or a (Some []) of Some v \<Rightarrow> v | None \<Rightarrow> [])"

text \<open>
  One key of \<^verbatim>\<open>{...profile, ...updates}\<close>: where \<^verbatim>\<open>updates\<close> has the key, its value
  wins, also when that value is \<^verbatim>\<open>undefined\<close>; otherwise the value from \<^verbatim>\<open>profile\<close>
  stays.  The result is the value read from the merged object.
\<close>

definition spread_key :: "'a option \<Rightarrow> 'a object_key \<Rightarrow> 'a option" where
  "spread_key prior upd = (case upd of Key_present v \<Rightarrow> v | Key_absent \<Rightarrow> prior)"

definition profileData :: "UserProfile option \<Rightarrow> UserProfile_partial \<Rightarrow> profile_data" where
  "profileData prof updates =
     \<lparr>pd_id = spread_key (map_option profile_id prof) (upd_id updates),
      pd_first_name =
        or_empty (js_or (upd_first_name updates) (map_option first_name prof)),
      pd_last_name =
        or_empty (js_or (upd_last_name updates) (map_option last_name prof)),
      pd_grade =
        or_empty (js_or (upd_grade updates) (map_option grade prof)),
      pd_board = spread_key (Option.bind prof board) (upd_board updates),
      pd_area = spread_key (Option.bind prof area) (upd_area updates),
      pd_profile_picture_url =
        spread_key (Option.bind prof profile_picture_url) (upd_profile_picture_url updates),
      pd_subject_group = spread_key (Option.bind prof subject_group) (upd_subject_group updates),
      pd_subjects = spread_key (Option.bind prof subjects) (upd_subjects updates),
      pd_created_at = spread_key (map_option created_at prof) (upd_created_at updates),
      pd_updated_at = spread_key (map_option updated_at prof) (upd_updated_at updates)\<rparr>"

text \<open>Lines 420-425: the three awaited calls made for a new user; the first throw ends them.\<close>

definition initialize_new_user ::
    "services \<Rightarrow> string \<Rightarrow> auth_state \<Rightarrow> js_error option \<times> auth_state" where
  "initialize_new_user svc userId s =
     (let s1 = issue (InitializeUserProgress userId) s
      in case ProgressService_initializeUserProgress svc userId of
           Rejected e \<Rightarrow> (Some e, s1)
         | Resolved _ \<Rightarrow>
             (let s2 = issue (InitializeSubjects userId) s1
              in case ProgressService_initializeSubjects svc userId of
                   Rejected e \<Rightarrow> (Some e, s2)
                 | Resolved _ \<Rightarrow> (None, loadUserProgress svc userId s2)))"

definition updateProfile ::
    "services \<Rightarrow> UserProfile_partial \<Rightarrow> File option \<Rightarrow> auth_state
      \<Rightarrow> js_error option \<times> auth_state" where
  "updateProfile svc updates profilePicture s =
     (case user s of
        None \<Rightarrow> (Some no_user_logged_in, s)
      | Some u \<Rightarrow>
          (let pd = profileData (profile s) updates;
               s1 = issue (UpdateUserProfile (uid u) pd profilePicture) (s\<lparr>error := None\<rparr>)
           in case AuthService_updateUserProfile svc (uid u) pd profilePicture of
                Rejected e \<Rightarrow> (Some e, handleSupabaseError e ''Profile update'' s1)
              | Resolved updatedProfile \<Rightarrow>
                  (let s2 = s1\<lparr>profile := updatedProfile, connectionStatus := Connected\<rparr>
                   in case (if isNewUser s then initialize_new_user svc (uid u) s2
                            else (None, s2)) of
                        (Some e, s3) \<Rightarrow> (Some e, handleSupabaseError e ''Profile update'' s3)
                      | (None, s3) \<Rightarrow> (None, checkSubjectGroupSelection svc (uid u) s3))))"

subsection \<open>Startup: \<^verbatim>\<open>getInitialSession\<close>\<close>

text \<open>
  Lines 204-264.  \<open>timer_fired\<close> says that the 8000 ms timer of lines 212-214 ran before the
  awaited call settled.  Its callback calls \<^verbatim>\<open>controller.abort()\<close>, and the controller's
  signal is handed to no call, so nothing the function does afterwards depends on it.
  \<open>mounted\<close> is the value of the variable once the call has settled.
\<close>

definition getInitialSession :: "bool \<Rightarrow> bool \<Rightarrow> services \<Rightarrow> auth_state \<Rightarrow> auth_state" where
  "getInitialSession timer_fired mounted svc s =
     (let s1 = issue GetCurrentUser (s\<lparr>error := None, connectionStatus := Checking\<rparr>)
      in case AuthService_getCurrentUser svc of
           Resolved currentUser \<Rightarrow>
             (if \<not> mounted then s1
              else
                (let s2 = s1\<lparr>user := currentUser, connectionStatus := Connected\<rparr>
                 in (case currentUser of
                       None \<Rightarrow> s2
                     | Some u \<Rightarrow>
                         start_loads (uid u)
                           (s2\<lparr>isNewUser := (localStorage_isNewUser s2 = Some ''true'')\<rparr>))
                    \<lparr>loading := False\<rparr>))
         | Rejected authError \<Rightarrow>
             (if is_Error authError \<and> err_name authError = Some ''AbortError''
              then
                (let s2 = s1\<lparr>connectionStatus := Disconnected,
                              error := Some connection_timeout_message\<rparr>
                 in if mounted then s2\<lparr>loading := False\<rparr> else s2)
              else if mounted
              then (handleSupabaseError authError ''Initial session''
                      (s1\<lparr>user := None, profile := None, progressStats := None,
                          subjectProgress := [], hasSubjectGroup := False\<rparr>))
                   \<lparr>loading := False\<rparr>
              else s1))"

subsection \<open>The session-change handler and the events that follow it\<close>

text \<open>Lines 271-300; \<open>mounted\<close> is the value of the variable when the notification arrives.\<close>

definition onAuthStateChange_handler ::
    "bool \<Rightarrow> string \<Rightarrow> Session option \<Rightarrow> auth_state \<Rightarrow> auth_state" where
  "onAuthStateChange_handler mounted event sess s =
     (if \<not> mounted then s
      else
        (let s1 = s\<lparr>error := None, session := sess, user := map_option session_user sess\<rparr>
         in (case sess of
               Some se \<Rightarrow>
                 start_loads (uid (session_user se))
                   (s1\<lparr>connectionStatus := Connected,
                       isNewUser := (localStorage_isNewUser s1 = Some ''true'')\<rparr>)
             | None \<Rightarrow>
                 s1\<lparr>profile := None, progressStats := None, subjectProgress := [],
                    isNewUser := False, hasSubjectGroup := False\<rparr>)
            \<lparr>loading := False\<rparr>))"

text \<open>
  What the event loop runs between two suspension points: a notification, or the
  continuation of one of the loaders that a notification started.
\<close>

datatype event =
    AuthStateChange bool string "Session option"
  | ProfileSettled "UserProfile option outcome"
  | ProgressStatsSettled string "UserProgressStats option outcome"
  | SubjectProgressSettled "SubjectProgress list outcome"
  | SubjectGroupSettled "SubjectGroup option outcome"

fun step :: "auth_state \<Rightarrow> event \<Rightarrow> auth_state" where
  "step s (AuthStateChange mounted event sess) = onAuthStateChange_handler mounted event sess s"
| "step s (ProfileSettled r) = loadUserProfile_settled r s"
| "step s (ProgressStatsSettled userId r) = loadUserProgress_stats_settled userId r s"
| "step s (SubjectProgressSettled r) = loadUserProgress_subjects_settled r s"
| "step s (SubjectGroupSettled r) = checkSubjectGroupSelection_settled r s"

definition run :: "auth_state \<Rightarrow> event list \<Rightarrow> auth_state" where
  "run s es = foldl step s es"

text \<open>The notifications that passed the \<^verbatim>\<open>mounted\<close> guard, oldest first, as their payloads.\<close>

fun applied :: "event list \<Rightarrow> Session option list" where
  "applied [] = []"
| "applied (AuthStateChange mounted event sess # es) =
     (if mounted then sess # applied es else applied es)"
| "applied (e # es) = applied es"

section \<open>The degraded-mode client: \<^verbatim>\<open>createMockClient\<close>\<close>

text \<open>
  The error object of the backend replies (\<^verbatim>\<open>{ data, error }\<close>); the code reads
  \<^verbatim>\<open>.message\<close> and \<^verbatim>\<open>.code\<close> from it.
\<close>

record supabase_error =
  sb_message :: "string option"
  sb_code :: "string option"

definition mockError :: supabase_error where
  "mockError =
     \<lparr>sb_message = Some ''Supabase connection unavailable. Please check your project status.'',
      sb_code = Some ''SUPABASE_UNAVAILABLE''\<rparr>"

text \<open>
  The surface of the object that \<^verbatim>\<open>createMockClient\<close> returns (lines 25-79): one
  constructor for each chain of calls that ends in a value, named by the chain.
\<close>

datatype mock_operation =
    Auth_getUser
  | Auth_getSession
  | Auth_signUp
  | Auth_signInWithPassword
  | Auth_signOut
  | Auth_onAuthStateChange
  | From_select_eq_single
  | From_select_eq_limit
  | From_select_eq_maybeSingle
  | From_select_eq_order_limit
  | From_select_limit
  | From_select_order_limit
  | From_insert
  | From_update_eq_select_single
  | From_upsert_select_single
  | Storage_upload
  | Storage_remove
  | Storage_getPublicUrl

text \<open>The \<^verbatim>\<open>data\<close> part of a reply; \<open>No_data\<close> is a reply without that key.\<close>

datatype mock_data =
    User_null
  | Session_null
  | User_and_session_null
  | Data_null
  | Data_empty_list
  | Public_url string
  | No_data

text \<open>
  What an operation gives back: a promise that resolves with \<^verbatim>\<open>{ data, error }\<close>, a
  promise that rejects, a plain value, or a subscription together with the callbacks it
  has scheduled (delay in ms, event name, session).
\<close>

datatype mock_result =
    Promise_resolved mock_data "supabase_error option"
  | Promise_rejected js_error
  | Returned mock_data
  | Subscribed "(nat \<times> string \<times> Session option) list"

fun createMockClient :: "mock_operation \<Rightarrow> mock_result" where
  "createMockClient Auth_getUser = Promise_resolved User_null None"
| "createMockClient Auth_getSession = Promise_resolved Session_null None"
| "createMockClient Auth_signUp = Promise_resolved User_and_session_null (Some mockError)"
| "createMockClient Auth_signInWithPassword =
     Promise_resolved User_and_session_null (Some mockError)"
| "createMockClient Auth_signOut = Promise_resolved No_data None"
| "createMockClient Auth_onAuthStateChange = Subscribed [(100, ''SIGNED_OUT'', None)]"
| "createMockClient From_select_eq_single = Promise_resolved Data_null (Some mockError)"
| "createMockClient From_select_eq_limit = Promise_resolved Data_empty_list None"
| "createMockClient From_select_eq_maybeSingle = Promise_resolved Data_null (Some mockError)"
| "createMockClient From_select_eq_order_limit = Promise_resolved Data_empty_list None"
| "createMockClient From_select_limit = Promise_resolved Data_empty_list None"
| "createMockClient From_select_order_limit = Promise_resolved Data_empty_list None"
| "createMockClient From_insert = Promise_resolved Data_null (Some mockError)"
| "createMockClient From_update_eq_select_single = Promise_resolved Data_null (Some mockError)"
| "createMockClient From_upsert_select_single = Promise_resolved Data_null (Some mockError)"
| "createMockClient Storage_upload = Promise_resolved Data_null (Some mockError)"
| "createMockClient Storage_remove = Promise_resolved No_data None"
| "createMockClient Storage_getPublicUrl = Returned (Public_url [])"

text \<open>The \<^verbatim>\<open>error\<close> a caller reads from the settled reply, if the reply has that key.\<close>

fun reply_error :: "mock_result \<Rightarrow> supabase_error option" where
  "reply_error (Promise_resolved d e) = e"
| "reply_error r = None"

fun throws :: "mock_result \<Rightarrow> bool" where
  "throws (Promise_rejected e) = True"
| "throws r = False"

section \<open>The connection probe: \<^verbatim>\<open>testSupabaseConnection\<close>\<close>

text \<open>
  The probe awaits two calls on a client of type \<^verbatim>\<open>any\<close>.  Each is given by how it
  settles: \<open>Resolved err\<close> is a reply whose \<^verbatim>\<open>error\<close> is \<open>err\<close>; \<open>Rejected\<close> stands for a
  rejection and for any exception raised on the way to the reply.  Reading
  \<^verbatim>\<open>.message.includes\<close> from an error object without a message raises a
  \<^verbatim>\<open>TypeError\<close> inside the \<^verbatim>\<open>try\<close>.
\<close>

definition type_error :: js_error where
  "type_error =
     \<lparr>err_name = Some ''TypeError'',
      err_message = Some ''Cannot read properties of undefined'', is_Error = True\<rparr>"

text \<open>Lines 90-97: \<open>Inr True\<close> when the probe returns \<^verbatim>\<open>false\<close> here.\<close>

definition auth_network_failure :: "string \<Rightarrow> bool" where
  "auth_network_failure m =
     (str_includes m ''Failed to fetch'' \<or>
      str_includes m ''NetworkError'' \<or>
      str_includes m ''fetch is not defined'')"

definition auth_check_failed :: "supabase_error option \<Rightarrow> js_error + bool" where
  "auth_check_failed authError =
     (case authError of
        None \<Rightarrow> Inr False
      | Some err \<Rightarrow>
          (case sb_message err of
             None \<Rightarrow> Inl type_error
           | Some m \<Rightarrow> Inr (auth_network_failure m)))"

text \<open>The three tests of lines 106-128 on the message and code of the database error.\<close>

definition db_network_failure :: "string \<Rightarrow> bool" where
  "db_network_failure m =
     (str_includes m ''Failed to fetch'' \<or>
      str_includes m ''NetworkError'' \<or>
      str_includes m ''Connection timeout'' \<or>
      str_includes m ''fetch is not defined'')"

definition setup_needed :: "string option \<Rightarrow> string \<Rightarrow> bool" where
  "setup_needed c m =
     (c = Some ''PGRST116'' \<or>
      c = Some ''42P01'' \<or>
      str_includes m ''relation'' \<or>
      str_includes m ''does not exist'')"

definition project_paused :: "string \<Rightarrow> bool" where
  "project_paused m =
     (str_includes m ''Database error'' \<or>
      str_includes m ''unexpected_failure'')"

text \<open>Lines 105-132: the value returned once the database reply is there.\<close>

definition db_check_verdict :: "supabase_error option \<Rightarrow> js_error + bool" where
  "db_check_verdict dbError =
     (case dbError of
        None \<Rightarrow> Inr True
      | Some err \<Rightarrow>
          (case sb_message err of
             None \<Rightarrow> Inl type_error
           | Some m \<Rightarrow>
               (if db_network_failure m then Inr False
                else if setup_needed (sb_code err) m then Inr True
                else if project_paused m then Inr False
                else Inr True)))"

text \<open>The body of the \<^verbatim>\<open>try\<close>: \<open>Inl\<close> is an exception on its way to the \<^verbatim>\<open>catch\<close>.\<close>

definition probe_try :: "supabase_error option outcome \<Rightarrow> supabase_error option outcome
      \<Rightarrow> js_error + bool" where
  "probe_try auth_reply db_reply =
     (case auth_reply of
        Rejected e \<Rightarrow> Inl e
      | Resolved authError \<Rightarrow>
          (case auth_check_failed authError of
             Inl e \<Rightarrow> Inl e
           | Inr True \<Rightarrow> Inr False
           | Inr False \<Rightarrow>
               (case db_reply of
                  Rejected e \<Rightarrow> Inl e
                | Resolved dbError \<Rightarrow> db_check_verdict dbError)))"

definition testSupabaseConnection ::
    "supabase_error option outcome \<Rightarrow> supabase_error option outcome \<Rightarrow> bool outcome" where
  "testSupabaseConnection auth_reply db_reply =
     (case probe_try auth_reply db_reply of
        Inr b \<Rightarrow> Resolved b
      | Inl e \<Rightarrow> Resolved False)"

section \<open>The progress table and its initialisation trigger\<close>

text \<open>
  The table \<^verbatim>\<open>user_progress_stats\<close> (migration lines 55-69) holds rows of
  \<open>UserProgressStats\<close>; \<^verbatim>\<open>auth.users\<close> is kept as the list of its ids, which
  \<^verbatim>\<open>user_id\<close> references.
\<close>

record database =
  auth_users :: "string list"
  user_progress_stats :: "UserProgressStats list"

datatype sql_error = unique_violation | foreign_key_violation

text \<open>
  The row that \<^verbatim>\<open>INSERT INTO user_progress_stats (user_id) VALUES (...)\<close> builds from the
  column defaults; \<open>new_id\<close> is what \<^verbatim>\<open>gen_random_uuid()\<close> returns and \<open>now\<close> what
  \<^verbatim>\<open>now()\<close> returns.
\<close>

definition default_row :: "string \<Rightarrow> string \<Rightarrow> string \<Rightarrow> UserProgressStats" where
  "default_row new_id now userId =
     \<lparr>stats_id = new_id, stats_user_id = userId, study_streak_days = 0,
      total_study_time_minutes = 0, completed_lessons = 0, total_tests_taken = 0,
      average_test_score = 0, ai_sessions_count = 0, weekly_study_time = 0,
      monthly_study_time = 0, last_study_date = None,
      stats_created_at = now, stats_updated_at = now\<rparr>"

text \<open>
  The statement with \<^verbatim>\<open>ON CONFLICT (user_id) DO NOTHING\<close>: a row with the same
  \<^verbatim>\<open>user_id\<close> makes it do nothing; the primary key and the foreign key still raise.
\<close>

definition insert_user_progress_stats ::
    "string \<Rightarrow> string \<Rightarrow> string \<Rightarrow> database \<Rightarrow> sql_error + database" where
  "insert_user_progress_stats new_id now userId db =
     (if userId \<in> set (map stats_user_id (user_progress_stats db)) then Inr db
      else if new_id \<in> set (map stats_id (user_progress_stats db)) then Inl unique_violation
      else if userId \<notin> set (auth_users db) then Inl foreign_key_violation
      else Inr (db\<lparr>user_progress_stats :=
                     user_progress_stats db @ [default_row new_id now userId]\<rparr>))"

text \<open>
  The trigger function (lines 289-303), run with \<^verbatim>\<open>NEW.id\<close>: \<^verbatim>\<open>EXCEPTION WHEN OTHERS\<close>
  turns an error of the insert into a warning and leaves the table as it was.
\<close>

definition initialize_user_progress :: "string \<Rightarrow> string \<Rightarrow> string \<Rightarrow> database \<Rightarrow> database" where
  "initialize_user_progress new_id now NEW_id db =
     (case insert_user_progress_stats new_id now NEW_id db of
        Inr db' \<Rightarrow> db'
      | Inl e \<Rightarrow> db)"

definition rows_of :: "string \<Rightarrow> database \<Rightarrow> UserProgressStats list" where
  "rows_of userId db = filter (\<lambda>r. stats_user_id r = userId) (user_progress_stats db)"

section \<open>Auxiliary definitions for the statements\<close>

text \<open>The profile objects handed to \<^verbatim>\<open>AuthService.updateUserProfile\<close> in a trace of calls.\<close>

fun submitted :: "backend_call list \<Rightarrow> profile_data list" where
  "submitted [] = []"
| "submitted (UpdateUserProfile userId pd picture # cs) = pd # submitted cs"
| "submitted (c # cs) = submitted cs"

text \<open>
  The value the specification gives for a required field: the update's value if it is
  non-empty, otherwise the prior value if it is non-empty, otherwise the empty string.
\<close>

definition spec_required_field :: "string option \<Rightarrow> string option \<Rightarrow> string" where
  "spec_required_field upd prior =
     (case upd of
        Some v \<Rightarrow> if v \<noteq> [] then v else (case prior of Some w \<Rightarrow> w | None \<Rightarrow> [])
      | None \<Rightarrow> (case prior of Some w \<Rightarrow> w | None \<Rightarrow> []))"

subsection \<open>Concrete inputs\<close>

definition ann :: User where
  "ann = \<lparr>uid = ''u-ann'', email = Some ''ann@example.org''\<rparr>"

definition ann_session :: Session where
  "ann_session = \<lparr>access_token = ''tok-1'', expires_at = Some 3600, session_user = ann\<rparr>"

definition ann_profile :: UserProfile where
  "ann_profile =
     \<lparr>profile_id = ''u-ann'', first_name = ''Ann'', last_name = ''Lee'', grade = [],
      board = None, area = None, profile_picture_url = None, subject_group = None,
      subjects = Some [], created_at = ''2025-06-24'', updated_at = ''2025-06-24''\<rparr>"

definition ann_stats :: UserProgressStats where
  "ann_stats = default_row ''row-1'' ''2025-06-24'' ''u-ann''"

definition ann_updates :: UserProfile_partial where
  "ann_updates =
     \<lparr>upd_id = Key_absent, upd_first_name = None, upd_last_name = Some [],
      upd_grade = Some ''10'', upd_board = Key_present (Some ''CBSE''), upd_area = Key_absent,
      upd_profile_picture_url = Key_present None, upd_subject_group = Key_absent,
      upd_subjects = Key_absent, upd_created_at = Key_absent,
      upd_updated_at = Key_absent\<rparr>"

definition fetch_failure :: js_error where
  "fetch_failure =
     \<lparr>err_name = Some ''TypeError'', err_message = Some ''Failed to fetch'', is_Error = True\<rparr>"

text \<open>A backend on which every call settles well.\<close>

definition healthy_services :: services where
  "healthy_services =
     \<lparr>AuthService_getCurrentUser = Resolved (Some ann),
      AuthService_getUserProfile = (\<lambda>userId. Resolved (Some ann_profile)),
      AuthService_updateUserProfile =
        (\<lambda>userId pd picture. Resolved (Some (ann_profile\<lparr>first_name := pd_first_name pd,
            last_name := pd_last_name pd, grade := pd_grade pd\<rparr>))),
      AuthService_signOut = Resolved (),
      ProgressService_getUserProgress = (\<lambda>userId. Resolved (Some ann_stats)),
      ProgressService_getSubjectProgress = (\<lambda>userId. Resolved []),
      ProgressService_recordStudySession =
        (\<lambda>userId sessionType subject durationMinutes score. Resolved ()),
      ProgressService_initializeUserProgress = (\<lambda>userId. Resolved ()),
      ProgressService_initializeSubjects = (\<lambda>userId. Resolved ()),
      SubjectGroupService_getUserSubjectGroup =
        (\<lambda>userId. Resolved (Some \<lparr>sg_subjects = [''Math'']\<rparr>))\<rparr>"

text \<open>A backend on which every call rejects with the browser's fetch failure.\<close>

definition unreachable_services :: services where
  "unreachable_services =
     \<lparr>AuthService_getCurrentUser = Rejected fetch_failure,
      AuthService_getUserProfile = (\<lambda>userId. Rejected fetch_failure),
      AuthService_updateUserProfile = (\<lambda>userId pd picture. Rejected fetch_failure),
      AuthService_signOut = Rejected fetch_failure,
      ProgressService_getUserProgress = (\<lambda>userId. Rejected fetch_failure),
      ProgressService_getSubjectProgress = (\<lambda>userId. Rejected fetch_failure),
      ProgressService_recordStudySession =
        (\<lambda>userId sessionType subject durationMinutes score. Rejected fetch_failure),
      ProgressService_initializeUserProgress = (\<lambda>userId. Rejected fetch_failure),
      ProgressService_initializeSubjects = (\<lambda>userId. Rejected fetch_failure),
      SubjectGroupService_getUserSubjectGroup = (\<lambda>userId. Rejected fetch_failure)\<rparr>"

text \<open>A signed-in state with everything loaded, and a backend that has since gone away.\<close>

definition signed_in :: auth_state where
  "signed_in =
     \<lparr>user = Some ann, profile = Some ann_profile, progressStats = Some ann_stats,
      subjectProgress = [], session = Some ann_session, loading = False, error = None,
      isNewUser = False, hasSubjectGroup = True, connectionStatus = Connected,
      localStorage_isNewUser = None, backend_calls = []\<rparr>"

text \<open>
  Ann right after sign-up, about to complete her profile, and a backend on which the
  progress initialisation fails while everything else works.
\<close>

definition new_user_signed_in :: auth_state where
  "new_user_signed_in =
     signed_in\<lparr>isNewUser := True, localStorage_isNewUser := Some ''true'',
                progressStats := None, hasSubjectGroup := False\<rparr>"

definition initialisation_fails :: services where
  "initialisation_fails =
     healthy_services\<lparr>ProgressService_initializeUserProgress :=
       (\<lambda>userId. Rejected fetch_failure)\<rparr>"

text \<open>The tables right after Ann's account was created.\<close>

definition new_database :: database where
  "new_database = \<lparr>auth_users = [''u-ann''], user_progress_stats = []\<rparr>"

section \<open>Facts about the trace of calls and the error classification\<close>

lemma submitted_append: "submitted (xs @ ys) = submitted xs @ submitted ys"
  by (induction xs rule: submitted.induct) simp_all

lemma calls_handleSupabaseError [simp]:
  "backend_calls (handleSupabaseError e ctx s) = backend_calls s"
  by (simp add: handleSupabaseError_def)

lemma submitted_loadUserProgress [simp]:
  "submitted (backend_calls (loadUserProgress svc userId s)) = submitted (backend_calls s)"
  by (simp add: loadUserProgress_def loadUserProgress_subjects_settled_def issue_def
      submitted_append split: outcome.splits)

lemma submitted_checkSubjectGroupSelection [simp]:
  "submitted (backend_calls (checkSubjectGroupSelection svc userId s)) =
     submitted (backend_calls s)"
  by (simp add: checkSubjectGroupSelection_def checkSubjectGroupSelection_settled_def issue_def
      submitted_append split: outcome.splits)

lemma submitted_initialize_new_user [simp]:
  "submitted (backend_calls (snd (initialize_new_user svc userId s))) =
     submitted (backend_calls s)"
  by (simp add: initialize_new_user_def issue_def Let_def submitted_append
      split: outcome.splits)

lemma submitted_by_updateProfile:
  "submitted (backend_calls (snd (updateProfile svc updates picture s))) =
     submitted (backend_calls s) @
       (if user s = None then [] else [profileData (profile s) updates])"
  by (simp add: updateProfile_def issue_def Let_def submitted_append case_prod_beta
      split: outcome.splits option.splits)

lemma required_field_spec:
  "or_empty (js_or upd prior) = spec_required_field upd prior"
  by (simp add: or_empty_def js_or_def truthy_def spec_required_field_def
      split: option.splits)

lemma handleSupabaseError_keeps [simp]:
  "profile (handleSupabaseError e ctx s) = profile s"
  "user (handleSupabaseError e ctx s) = user s"
  "session (handleSupabaseError e ctx s) = session s"
  by (simp_all add: handleSupabaseError_def)

lemma start_loads_keeps [simp]:
  "user (start_loads userId s) = user s"
  "session (start_loads userId s) = session s"
  by (simp_all add: start_loads_def issue_def)

lemma fixed_messages_nonempty:
  "cannot_connect_message \<noteq> [] \<and> project_issue_message \<noteq> []"
  by (simp add: cannot_connect_message_def project_issue_message_def siren_def)

lemma issue_keeps [simp]:
  "connectionStatus (issue c s) = connectionStatus s"
  "error (issue c s) = error s"
  "profile (issue c s) = profile s"
  by (simp_all add: issue_def)

text \<open>What \<^verbatim>\<open>handleSupabaseError\<close> leaves in the two cells it writes.\<close>

lemma handleSupabaseError_error:
  "error (handleSupabaseError e ctx s) =
     (if err_name e = Some ''SupabaseConnectionError'' \<or>
         err_name e = Some ''SupabaseTimeoutError''
      then err_message e
      else if message_includes e ''Failed to fetch'' \<or>
              message_includes e ''NetworkError'' \<or>
              message_includes e ''Connection timeout'' \<or>
              message_includes e ''fetch is not defined''
      then Some cannot_connect_message
      else if message_includes e ''Database error saving new user'' \<or>
              message_includes e ''unexpected_failure''
      then Some project_issue_message
      else if is_Error e then err_message e
      else Some (ctx @ '' failed''))"
  by (simp add: handleSupabaseError_def)

lemma handleSupabaseError_status:
  "connectionStatus (handleSupabaseError e ctx s) =
     (if err_name e = Some ''SupabaseConnectionError'' \<or>
         err_name e = Some ''SupabaseTimeoutError'' \<or>
         message_includes e ''Failed to fetch'' \<or>
         message_includes e ''NetworkError'' \<or>
         message_includes e ''Connection timeout'' \<or>
         message_includes e ''fetch is not defined'' \<or>
         message_includes e ''Database error saving new user'' \<or>
         message_includes e ''unexpected_failure''
      then Disconnected
      else connectionStatus s)"
  by (simp add: handleSupabaseError_def)

lemma initialize_new_user_keeps [simp]:
  "profile (snd (initialize_new_user svc userId s)) = profile s"
  "connectionStatus (snd (initialize_new_user svc userId s)) = connectionStatus s"
  by (simp_all add: initialize_new_user_def Let_def loadUserProgress_def
      loadUserProgress_subjects_settled_def issue_def split: outcome.splits)

lemma initialize_new_user_thrown:
  "fst (initialize_new_user svc userId s) =
     (case ProgressService_initializeUserProgress svc userId of
        Rejected e \<Rightarrow> Some e
      | Resolved x \<Rightarrow>
          (case ProgressService_initializeSubjects svc userId of
             Rejected e \<Rightarrow> Some e
           | Resolved y \<Rightarrow> None))"
  by (simp add: initialize_new_user_def Let_def split: outcome.splits)

lemma checkSubjectGroupSelection_keeps [simp]:
  "profile (checkSubjectGroupSelection svc userId s) = profile s"
  by (simp add: checkSubjectGroupSelection_def checkSubjectGroupSelection_settled_def issue_def
      split: outcome.splits)

lemma connection_timeout_message_nonempty: "connection_timeout_message \<noteq> []"
  by (simp add: connection_timeout_message_def siren_def)

section \<open>Startup\<close>

text \<open>
  When the awaited call rejects with an \<^verbatim>\<open>AbortError\<close>, the inner \<^verbatim>\<open>catch\<close> marks the
  connection as lost and sets the timeout message; it does not touch \<^verbatim>\<open>user\<close>, which the
  outer \<^verbatim>\<open>catch\<close> (every other error) sets to \<^verbatim>\<open>null\<close>.
\<close>

lemma getInitialSession_abort_error:
  assumes "AuthService_getCurrentUser svc = Rejected e"
    and "is_Error e" and "err_name e = Some ''AbortError''"
  shows "connectionStatus (getInitialSession timer_fired True svc s) = Disconnected \<and>
         error (getInitialSession timer_fired True svc s) = Some connection_timeout_message \<and>
         user (getInitialSession timer_fired True svc s) = user s \<and>
         \<not> loading (getInitialSession timer_fired True svc s)"
  using assms by (simp add: getInitialSession_def Let_def issue_def)

text \<open>Whether the timer fired makes no difference to what the function does.\<close>

lemma getInitialSession_ignores_timer:
  "getInitialSession True mounted svc s = getInitialSession False mounted svc s"
  by (simp add: getInitialSession_def)

text \<open>
  C1.  The claim: whenever the startup session check exceeds its timeout,
  \<^verbatim>\<open>getInitialSession\<close> ends disconnected, with an error, without a user and with
  \<^verbatim>\<open>loading = false\<close>.  The code does not do this: the timer only aborts a controller that
  no call listens to.  On the first render, with the timer fired and the call resolving
  with a user afterwards, the run ends connected, without an error and with that user.
\<close>

theorem getInitialSession_late_reply:
  "AuthService_getCurrentUser healthy_services = Resolved (Some ann) \<and>
   connectionStatus (getInitialSession True True healthy_services (initial_state None)) =
     Connected \<and>
   error (getInitialSession True True healthy_services (initial_state None)) = None \<and>
   user (getInitialSession True True healthy_services (initial_state None)) = Some ann"
  by (simp add: getInitialSession_def Let_def healthy_services_def initial_state_def
      start_loads_def issue_def)

section \<open>The degraded-mode client\<close>

text \<open>
  C2, as amended.  No operation of the mock client throws or rejects, and all but the
  subscription and \<^verbatim>\<open>getPublicUrl\<close> return a resolved promise.  The reply carries
  \<open>mockError\<close> exactly for sign-up, sign-in, the single-row reads, insert, update, upsert
  and upload; every other reply (\<^verbatim>\<open>getUser\<close>, \<^verbatim>\<open>getSession\<close>, \<^verbatim>\<open>signOut\<close>, the list
  reads, \<^verbatim>\<open>remove\<close>) has no error.  \<^verbatim>\<open>signOut\<close> resolves without an error,
  \<^verbatim>\<open>getPublicUrl\<close> returns at once an object with an empty URL, and the subscription
  schedules one \<^verbatim>\<open>SIGNED_OUT\<close> notification without a session, 100 ms later.
\<close>

theorem mock_client_replies:
  "\<not> throws (createMockClient op) \<and>
   reply_error (createMockClient op) =
     (if op \<in> {Auth_signUp, Auth_signInWithPassword, From_select_eq_single,
                 From_select_eq_maybeSingle, From_insert, From_update_eq_select_single,
                 From_upsert_select_single, Storage_upload}
      then Some mockError else None) \<and>
   (op \<noteq> Auth_onAuthStateChange \<and> op \<noteq> Storage_getPublicUrl \<longrightarrow>
      (\<exists>d e. createMockClient op = Promise_resolved d e)) \<and>
   createMockClient Auth_signOut = Promise_resolved No_data None \<and>
   createMockClient Storage_getPublicUrl = Returned (Public_url []) \<and>
   createMockClient Auth_onAuthStateChange = Subscribed [(100, ''SIGNED_OUT'', None)]"
  by (cases op) simp_all

text \<open>The theorem at an insert and at a list read.\<close>

theorem mock_client_replies_witness:
  "reply_error (createMockClient From_insert) = Some mockError \<and>
   From_select_limit \<noteq> Auth_onAuthStateChange \<and> From_select_limit \<noteq> Storage_getPublicUrl \<and>
   reply_error (createMockClient From_select_limit) = None \<and>
   (\<exists>d e. createMockClient From_select_limit = Promise_resolved d e) \<and>
   createMockClient Storage_getPublicUrl = Returned (Public_url [])"
  using mock_client_replies [where op = From_insert]
    mock_client_replies [where op = From_select_limit]
  by simp

text \<open>
  The claim as stated fails at \<^verbatim>\<open>auth.getUser\<close>, which is neither \<^verbatim>\<open>signOut\<close> nor the
  subscription: its reply has no error.
\<close>

theorem mock_getUser_counterexample:
  "Auth_getUser \<noteq> Auth_signOut \<and> Auth_getUser \<noteq> Auth_onAuthStateChange \<and>
   createMockClient Auth_getUser = Promise_resolved User_null None \<and>
   reply_error (createMockClient Auth_getUser) \<noteq> Some mockError"
  by simp

section \<open>\<^verbatim>\<open>updateProfile\<close>\<close>

text \<open>
  C3.  Whatever the state and the updates, \<^verbatim>\<open>updateProfile\<close> hands exactly one profile
  object to the backend when a user is signed in (none otherwise), the object built from
  the stored profile and the updates.  In an object so built each of \<^verbatim>\<open>first_name\<close>,
  \<^verbatim>\<open>last_name\<close> and \<^verbatim>\<open>grade\<close> is the update's value if that is non-empty, else the prior
  value if that is non-empty, else the empty string; so it is non-empty whenever the prior
  value was.
\<close>

theorem updateProfile_required_fields:
  "submitted (backend_calls (snd (updateProfile svc updates picture s))) =
     submitted (backend_calls s) @
       (if user s = None then [] else [profileData (profile s) updates]) \<and>
   pd_first_name (profileData prof updates) =
     spec_required_field (upd_first_name updates) (map_option first_name prof) \<and>
   pd_last_name (profileData prof updates) =
     spec_required_field (upd_last_name updates) (map_option last_name prof) \<and>
   pd_grade (profileData prof updates) =
     spec_required_field (upd_grade updates) (map_option grade prof) \<and>
   (prof = Some p \<and> first_name p \<noteq> [] \<longrightarrow> pd_first_name (profileData prof updates) \<noteq> []) \<and>
   (prof = Some p \<and> last_name p \<noteq> [] \<longrightarrow> pd_last_name (profileData prof updates) \<noteq> []) \<and>
   (prof = Some p \<and> grade p \<noteq> [] \<longrightarrow> pd_grade (profileData prof updates) \<noteq> [])"
  by (simp add: submitted_by_updateProfile profileData_def required_field_spec
      spec_required_field_def split: option.splits)

text \<open>
  Ann completes her profile: no first name in the update, an empty last name, grade 10.
\<close>

theorem updateProfile_required_fields_witness:
  "first_name ann_profile \<noteq> [] \<and> last_name ann_profile \<noteq> [] \<and>
   pd_first_name (profileData (Some ann_profile) ann_updates) = ''Ann'' \<and>
   pd_last_name (profileData (Some ann_profile) ann_updates) = ''Lee'' \<and>
   pd_grade (profileData (Some ann_profile) ann_updates) = ''10'' \<and>
   submitted (backend_calls (snd (updateProfile healthy_services ann_updates None signed_in))) =
     [profileData (Some ann_profile) ann_updates]"
  using updateProfile_required_fields
    [where svc = healthy_services and updates = ann_updates and picture = None
       and s = signed_in and prof = "Some ann_profile" and p = ann_profile]
  by (simp add: signed_in_def ann_profile_def ann_updates_def spec_required_field_def)

text \<open>
  The calls that can make \<^verbatim>\<open>updateProfile\<close> throw, the profile it leaves, and what the
  \<^verbatim>\<open>catch\<close> writes; \<open>upd\<close> is how the update call settles and \<open>r\<close> the result.
\<close>

lemma updateProfile_unfold:
  assumes "user s = Some u"
  shows "updateProfile svc updates picture s =
     (let s1 = issue (UpdateUserProfile (uid u) (profileData (profile s) updates) picture)
                 (s\<lparr>error := None\<rparr>)
      in case AuthService_updateUserProfile svc (uid u) (profileData (profile s) updates)
                picture of
           Rejected e \<Rightarrow> (Some e, handleSupabaseError e ''Profile update'' s1)
         | Resolved p \<Rightarrow>
             (let s2 = s1\<lparr>profile := p, connectionStatus := Connected\<rparr>;
                  r = (if isNewUser s then initialize_new_user svc (uid u) s2 else (None, s2))
              in case fst r of
                   Some e \<Rightarrow> (Some e, handleSupabaseError e ''Profile update'' (snd r))
                 | None \<Rightarrow> (None, checkSubjectGroupSelection svc (uid u) (snd r))))"
  using assms
  by (simp add: updateProfile_def Let_def case_prod_beta split: outcome.splits option.splits)

lemma updateProfile_outcome_cases:
  assumes "user s = Some u"
    and "upd = AuthService_updateUserProfile svc (uid u) (profileData (profile s) updates) picture"
    and "r = updateProfile svc updates picture s"
  shows "fst r =
           (case upd of
              Rejected e1 \<Rightarrow> Some e1
            | Resolved p \<Rightarrow>
                if isNewUser s
                then (case ProgressService_initializeUserProgress svc (uid u) of
                        Rejected e2 \<Rightarrow> Some e2
                      | Resolved x \<Rightarrow>
                          (case ProgressService_initializeSubjects svc (uid u) of
                             Rejected e3 \<Rightarrow> Some e3
                           | Resolved y \<Rightarrow> None))
                else None) \<and>
         profile (snd r) = (case upd of Rejected e1 \<Rightarrow> profile s | Resolved p \<Rightarrow> p) \<and>
         (fst r = Some e \<longrightarrow>
            error (snd r) =
              (if err_name e = Some ''SupabaseConnectionError'' \<or>
                  err_name e = Some ''SupabaseTimeoutError''
               then err_message e
               else if message_includes e ''Failed to fetch'' \<or>
                       message_includes e ''NetworkError'' \<or>
                       message_includes e ''Connection timeout'' \<or>
                       message_includes e ''fetch is not defined''
               then Some cannot_connect_message
               else if message_includes e ''Database error saving new user'' \<or>
                       message_includes e ''unexpected_failure''
               then Some project_issue_message
               else if is_Error e then err_message e
               else Some ''Profile update failed'') \<and>
            connectionStatus (snd r) =
              (if err_name e = Some ''SupabaseConnectionError'' \<or>
                  err_name e = Some ''SupabaseTimeoutError'' \<or>
                  message_includes e ''Failed to fetch'' \<or>
                  message_includes e ''NetworkError'' \<or>
                  message_includes e ''Connection timeout'' \<or>
                  message_includes e ''fetch is not defined'' \<or>
                  message_includes e ''Database error saving new user'' \<or>
                  message_includes e ''unexpected_failure''
               then Disconnected
               else (case upd of
                       Rejected e1 \<Rightarrow> connectionStatus s
                     | Resolved p \<Rightarrow> Connected))) \<and>
         cannot_connect_message \<noteq> [] \<and> project_issue_message \<noteq> []"
proof -
  let ?s1 = "issue (UpdateUserProfile (uid u) (profileData (profile s) updates) picture)
               (s\<lparr>error := None\<rparr>)"
  note unf = updateProfile_unfold [OF assms(1), of svc updates picture]
  have call: "AuthService_updateUserProfile svc (uid u) (profileData (profile s) updates)
                picture = upd"
    using assms(2) by simp
  have run: "updateProfile svc updates picture s = r"
    using assms(3) by simp
  show ?thesis
  proof (cases upd)
    case (Rejected e1)
    from unf have r: "r = (Some e1, handleSupabaseError e1 ''Profile update'' ?s1)"
      unfolding call run Rejected by (simp add: Let_def)
    show ?thesis
      unfolding r Rejected
      by (simp add: handleSupabaseError_error handleSupabaseError_status
          fixed_messages_nonempty)
  next
    case (Resolved p)
    define q where "q =
      (if isNewUser s
       then initialize_new_user svc (uid u) (?s1\<lparr>profile := p, connectionStatus := Connected\<rparr>)
       else (None, ?s1\<lparr>profile := p, connectionStatus := Connected\<rparr>))"
    define th where "th =
      (if isNewUser s
       then (case ProgressService_initializeUserProgress svc (uid u) of
               Rejected e2 \<Rightarrow> Some e2
             | Resolved x \<Rightarrow>
                 (case ProgressService_initializeSubjects svc (uid u) of
                    Rejected e3 \<Rightarrow> Some e3
                  | Resolved y \<Rightarrow> None))
       else None)"
    have q_profile: "profile (snd q) = p"
      by (simp add: q_def)
    have q_status: "connectionStatus (snd q) = Connected"
      by (simp add: q_def)
    have q_thrown: "fst q = th"
      by (simp add: q_def th_def initialize_new_user_thrown)
    from unf
    have r: "r = (case fst q of
                    Some e \<Rightarrow> (Some e, handleSupabaseError e ''Profile update'' (snd q))
                  | None \<Rightarrow> (None, checkSubjectGroupSelection svc (uid u) (snd q)))"
      unfolding call run Resolved q_def by (simp add: Let_def)
    have "fst r = fst q"
      unfolding r by (simp split: option.splits)
    with q_thrown have A: "fst r = th"
      by simp
    have "profile (snd r) = profile (snd q)"
      unfolding r by (simp split: option.splits)
    with q_profile have B: "profile (snd r) = p"
      by simp
    have C: "fst r = Some e \<longrightarrow>
               error (snd r) = error (handleSupabaseError e ''Profile update'' (snd q)) \<and>
               connectionStatus (snd r) =
                 connectionStatus (handleSupabaseError e ''Profile update'' (snd q))"
      unfolding r by (simp split: option.splits)
    have D: "fst r = Some e \<longrightarrow>
               error (snd r) =
                 (if err_name e = Some ''SupabaseConnectionError'' \<or>
                     err_name e = Some ''SupabaseTimeoutError''
                  then err_message e
                  else if message_includes e ''Failed to fetch'' \<or>
                          message_includes e ''NetworkError'' \<or>
                          message_includes e ''Connection timeout'' \<or>
                          message_includes e ''fetch is not defined''
                  then Some cannot_connect_message
                  else if message_includes e ''Database error saving new user'' \<or>
                          message_includes e ''unexpected_failure''
                  then Some project_issue_message
                  else if is_Error e then err_message e
                  else Some ''Profile update failed'') \<and>
               connectionStatus (snd r) =
                 (if err_name e = Some ''SupabaseConnectionError'' \<or>
                     err_name e = Some ''SupabaseTimeoutError'' \<or>
                     message_includes e ''Failed to fetch'' \<or>
                     message_includes e ''NetworkError'' \<or>
                     message_includes e ''Connection timeout'' \<or>
                     message_includes e ''fetch is not defined'' \<or>
                     message_includes e ''Database error saving new user'' \<or>
                     message_includes e ''unexpected_failure''
                  then Disconnected
                  else Connected)"
      using C q_status
      by (simp add: handleSupabaseError_error handleSupabaseError_status)
    have E: "(case upd of
                Rejected e1 \<Rightarrow> Some e1
              | Resolved p \<Rightarrow>
                  if isNewUser s
                  then (case ProgressService_initializeUserProgress svc (uid u) of
                          Rejected e2 \<Rightarrow> Some e2
                        | Resolved x \<Rightarrow>
                            (case ProgressService_initializeSubjects svc (uid u) of
                               Rejected e3 \<Rightarrow> Some e3
                             | Resolved y \<Rightarrow> None))
                  else None) = th"
      unfolding Resolved th_def by simp
    have F: "(case upd of Rejected e1 \<Rightarrow> profile s | Resolved p \<Rightarrow> p) = p"
      unfolding Resolved by simp
    have G: "(case upd of Rejected e1 \<Rightarrow> connectionStatus s | Resolved p \<Rightarrow> Connected) =
               Connected"
      unfolding Resolved by simp
    show ?thesis
      unfolding E F G using A B D fixed_messages_nonempty by blast
  qed
qed

text \<open>
  C8, as amended.  With a user signed in, let \<open>upd\<close> be how
  \<^verbatim>\<open>AuthService.updateUserProfile\<close> settles and \<open>r\<close> the result of \<^verbatim>\<open>updateProfile\<close>.
  \<^verbatim>\<open>updateProfile\<close> throws exactly when the update call rejects, or when, for a flagged
  new user, \<^verbatim>\<open>initializeUserProgress\<close> or else \<^verbatim>\<open>initializeSubjects\<close> rejects after it,
  and it throws that error.  The stored profile is unchanged if the update call rejected
  and is the backend's reply otherwise, also when a later call fails.  Whenever an error
  \<open>e\<close> is thrown, the error field is: the message of \<open>e\<close> if its name is
  \<^verbatim>\<open>SupabaseConnectionError\<close> or \<^verbatim>\<open>SupabaseTimeoutError\<close>; else the fixed
  cannot-connect text if the message contains one of the four network markers; else the
  fixed project-issue text if it contains one of the two database markers; else the
  message of \<open>e\<close> if it is an \<^verbatim>\<open>Error\<close>, else \<^verbatim>\<open>'Profile update failed'\<close>.  The
  connection status is \<^verbatim>\<open>disconnected\<close> in the first three cases; otherwise it is what it
  was if the update call rejected and \<^verbatim>\<open>connected\<close> if a later call did.  The two fixed
  texts are not empty.
\<close>

theorem updateProfile_failure_outcome:
  assumes "user s = Some u"
  shows "let upd = AuthService_updateUserProfile svc (uid u) (profileData (profile s) updates)
                     picture;
             r = updateProfile svc updates picture s
         in fst r =
              (case upd of
                 Rejected e1 \<Rightarrow> Some e1
               | Resolved p \<Rightarrow>
                   if isNewUser s
                   then (case ProgressService_initializeUserProgress svc (uid u) of
                           Rejected e2 \<Rightarrow> Some e2
                         | Resolved x \<Rightarrow>
                             (case ProgressService_initializeSubjects svc (uid u) of
                                Rejected e3 \<Rightarrow> Some e3
                              | Resolved y \<Rightarrow> None))
                   else None) \<and>
            profile (snd r) = (case upd of Rejected e1 \<Rightarrow> profile s | Resolved p \<Rightarrow> p) \<and>
            (fst r = Some e \<longrightarrow>
               error (snd r) =
                 (if err_name e = Some ''SupabaseConnectionError'' \<or>
                     err_name e = Some ''SupabaseTimeoutError''
                  then err_message e
                  else if message_includes e ''Failed to fetch'' \<or>
                          message_includes e ''NetworkError'' \<or>
                          message_includes e ''Connection timeout'' \<or>
                          message_includes e ''fetch is not defined''
                  then Some cannot_connect_message
                  else if message_includes e ''Database error saving new user'' \<or>
                          message_includes e ''unexpected_failure''
                  then Some project_issue_message
                  else if is_Error e then err_message e
                  else Some ''Profile update failed'') \<and>
               connectionStatus (snd r) =
                 (if err_name e = Some ''SupabaseConnectionError'' \<or>
                     err_name e = Some ''SupabaseTimeoutError'' \<or>
                     message_includes e ''Failed to fetch'' \<or>
                     message_includes e ''NetworkError'' \<or>
                     message_includes e ''Connection timeout'' \<or>
                     message_includes e ''fetch is not defined'' \<or>
                     message_includes e ''Database error saving new user'' \<or>
                     message_includes e ''unexpected_failure''
                  then Disconnected
                  else (case upd of
                          Rejected e1 \<Rightarrow> connectionStatus s
                        | Resolved p \<Rightarrow> Connected))) \<and>
            cannot_connect_message \<noteq> [] \<and> project_issue_message \<noteq> []"
  unfolding Let_def by (rule updateProfile_outcome_cases [OF assms refl refl])

text \<open>
  Ann saves her profile while the backend cannot be reached; and Ann, as a new user,
  saves it on a backend where the update works and the progress initialisation fails.
\<close>

theorem updateProfile_failure_outcome_witness:
  "user signed_in = Some ann \<and>
   fst (updateProfile unreachable_services ann_updates None signed_in) = Some fetch_failure \<and>
   profile (snd (updateProfile unreachable_services ann_updates None signed_in)) =
     Some ann_profile \<and>
   error (snd (updateProfile unreachable_services ann_updates None signed_in)) =
     Some cannot_connect_message \<and>
   connectionStatus (snd (updateProfile unreachable_services ann_updates None signed_in)) =
     Disconnected \<and>
   user new_user_signed_in = Some ann \<and>
   fst (updateProfile initialisation_fails ann_updates None new_user_signed_in) =
     Some fetch_failure \<and>
   error (snd (updateProfile initialisation_fails ann_updates None new_user_signed_in)) =
     Some cannot_connect_message"
proof -
  have u: "user signed_in = Some ann"
    by (simp add: signed_in_def)
  have v: "user new_user_signed_in = Some ann"
    by (simp add: new_user_signed_in_def signed_in_def)
  have f: "err_name fetch_failure = Some ''TypeError'' \<and>
           message_includes fetch_failure ''Failed to fetch''"
    by (simp add: fetch_failure_def message_includes_def)
  have c: "AuthService_updateUserProfile unreachable_services (uid ann)
             (profileData (profile signed_in) ann_updates) None = Rejected fetch_failure"
    by (simp add: unreachable_services_def)
  have p: "profile signed_in = Some ann_profile"
    by (simp add: signed_in_def)
  note t1 = updateProfile_failure_outcome
    [OF u, where svc = unreachable_services and updates = ann_updates and picture = None
       and e = fetch_failure, unfolded Let_def c]
  from t1 have a1: "fst (updateProfile unreachable_services ann_updates None signed_in) =
                      Some fetch_failure"
    by simp
  from t1 p have a2: "profile (snd (updateProfile unreachable_services ann_updates None
                        signed_in)) = Some ann_profile"
    by simp
  from t1 a1 f have a3: "error (snd (updateProfile unreachable_services ann_updates None
                           signed_in)) = Some cannot_connect_message"
    by simp
  from t1 a1 f have a4: "connectionStatus (snd (updateProfile unreachable_services ann_updates
                           None signed_in)) = Disconnected"
    by simp
  have d: "\<exists>p. AuthService_updateUserProfile initialisation_fails (uid ann)
             (profileData (profile new_user_signed_in) ann_updates) None = Resolved p"
    by (simp add: initialisation_fails_def healthy_services_def)
  then obtain p' where d': "AuthService_updateUserProfile initialisation_fails (uid ann)
             (profileData (profile new_user_signed_in) ann_updates) None = Resolved p'" ..
  have i: "isNewUser new_user_signed_in \<and>
           ProgressService_initializeUserProgress initialisation_fails (uid ann) =
             Rejected fetch_failure"
    by (simp add: new_user_signed_in_def initialisation_fails_def healthy_services_def)
  note t2 = updateProfile_failure_outcome
    [OF v, where svc = initialisation_fails and updates = ann_updates and picture = None
       and e = fetch_failure, unfolded Let_def d']
  from t2 i have b1: "fst (updateProfile initialisation_fails ann_updates None
                        new_user_signed_in) = Some fetch_failure"
    by simp
  from t2 b1 f have b2: "error (snd (updateProfile initialisation_fails ann_updates None
                           new_user_signed_in)) = Some cannot_connect_message"
    by simp
  from u a1 a2 a3 a4 v b1 b2 show ?thesis
    by (intro conjI)
qed

text \<open>
  The claim as stated fails for a new user when the progress initialisation fails: a
  backend call inside \<^verbatim>\<open>updateProfile\<close> failed, the error is rethrown, and the stored
  profile is no longer the one from before the call.
\<close>

theorem updateProfile_late_failure_counterexample:
  "user new_user_signed_in = Some ann \<and>
   ProgressService_initializeUserProgress initialisation_fails ''u-ann'' =
     Rejected fetch_failure \<and>
   fst (updateProfile initialisation_fails ann_updates None new_user_signed_in) =
     Some fetch_failure \<and>
   profile new_user_signed_in = Some ann_profile \<and>
   profile (snd (updateProfile initialisation_fails ann_updates None new_user_signed_in)) =
     Some (ann_profile\<lparr>grade := ''10''\<rparr>) \<and>
   ann_profile\<lparr>grade := ''10''\<rparr> \<noteq> ann_profile"
  by (simp add: updateProfile_def initialize_new_user_def Let_def issue_def
      handleSupabaseError_def new_user_signed_in_def signed_in_def initialisation_fails_def
      healthy_services_def profileData_def or_empty_def js_or_def truthy_def ann_def
      ann_profile_def ann_updates_def)

text \<open>
  C10.  Without a user, \<^verbatim>\<open>recordStudySession\<close> and \<^verbatim>\<open>updateProfile\<close> throw
  \<^verbatim>\<open>Error('No user logged in')\<close> and leave the whole state as it was, the trace of backend
  calls included; \<^verbatim>\<open>refreshProgress\<close> and \<^verbatim>\<open>retryProfileLoad\<close> return with the state, and
  the trace, unchanged.
\<close>

theorem no_user_no_effect:
  assumes "user s = None"
  shows "recordStudySession svc sessionType subject durationMinutes score s =
           (Some \<lparr>err_name = Some ''Error'', err_message = Some ''No user logged in'',
                   is_Error = True\<rparr>, s) \<and>
         updateProfile svc updates picture s =
           (Some \<lparr>err_name = Some ''Error'', err_message = Some ''No user logged in'',
                   is_Error = True\<rparr>, s) \<and>
         refreshProgress svc s = s \<and>
         retryProfileLoad svc s = s"
  using assms
  by (simp add: recordStudySession_def updateProfile_def refreshProgress_def
      retryProfileLoad_def no_user_logged_in_def)

text \<open>The four actions on the state of the first render.\<close>

theorem no_user_no_effect_witness:
  "user (initial_state None) = None \<and>
   recordStudySession healthy_services Test ''Math'' 30 (Some 85) (initial_state None) =
     (Some \<lparr>err_name = Some ''Error'', err_message = Some ''No user logged in'',
             is_Error = True\<rparr>, initial_state None) \<and>
   updateProfile healthy_services ann_updates None (initial_state None) =
     (Some \<lparr>err_name = Some ''Error'', err_message = Some ''No user logged in'',
             is_Error = True\<rparr>, initial_state None) \<and>
   refreshProgress healthy_services (initial_state None) = initial_state None \<and>
   retryProfileLoad healthy_services (initial_state None) = initial_state None \<and>
   backend_calls (snd (updateProfile healthy_services ann_updates None (initial_state None))) = []"
proof -
  have u: "user (initial_state None) = None"
    by (simp add: initial_state_def)
  have c: "backend_calls (initial_state None) = []"
    by (simp add: initial_state_def)
  show ?thesis
    using u c
      no_user_no_effect [OF u, where svc = healthy_services and sessionType = Test
          and subject = "''Math''" and durationMinutes = 30 and score = "Some 85"
          and updates = ann_updates and picture = None]
    by simp
qed

section \<open>\<^verbatim>\<open>signOut\<close>\<close>

text \<open>
  C4, as amended.  When the backend's sign-out call resolves, \<^verbatim>\<open>signOut\<close> throws nothing
  and leaves no user, session, profile, progress statistics or subject progress, no
  error, and the connection status \<^verbatim>\<open>connected\<close>, whatever the state before.  The
  new-user flag is cleared, in the state and in \<^verbatim>\<open>localStorage\<close>, and \<^verbatim>\<open>loading\<close> ends
  false, on every path.  When the backend call rejects with \<open>e\<close>, that error is
  rethrown, and user, session, profile, progress statistics and subject progress keep
  their values.  The error field then is: the message of \<open>e\<close> if its name is
  \<^verbatim>\<open>SupabaseConnectionError\<close> or \<^verbatim>\<open>SupabaseTimeoutError\<close>; else the fixed
  cannot-connect text if the message contains one of the four network markers; else the
  fixed project-issue text if it contains one of the two database markers; else the
  message of \<open>e\<close> if it is an \<^verbatim>\<open>Error\<close>, else \<^verbatim>\<open>'Sign out failed'\<close>.  The connection
  status is \<^verbatim>\<open>disconnected\<close> in the first three cases and what it was otherwise.  The
  two fixed texts are not empty.
\<close>

theorem signOut_outcome:
  "(AuthService_signOut svc = Resolved () \<longrightarrow>
      fst (signOut svc s) = None \<and>
      user (snd (signOut svc s)) = None \<and>
      session (snd (signOut svc s)) = None \<and>
      profile (snd (signOut svc s)) = None \<and>
      progressStats (snd (signOut svc s)) = None \<and>
      subjectProgress (snd (signOut svc s)) = [] \<and>
      error (snd (signOut svc s)) = None \<and>
      connectionStatus (snd (signOut svc s)) = Connected) \<and>
   \<not> isNewUser (snd (signOut svc s)) \<and>
   localStorage_isNewUser (snd (signOut svc s)) = None \<and>
   \<not> loading (snd (signOut svc s)) \<and>
   (AuthService_signOut svc = Rejected e \<longrightarrow>
      fst (signOut svc s) = Some e \<and>
      user (snd (signOut svc s)) = user s \<and>
      session (snd (signOut svc s)) = session s \<and>
      profile (snd (signOut svc s)) = profile s \<and>
      progressStats (snd (signOut svc s)) = progressStats s \<and>
      subjectProgress (snd (signOut svc s)) = subjectProgress s \<and>
      error (snd (signOut svc s)) =
        (if err_name e = Some ''SupabaseConnectionError'' \<or>
            err_name e = Some ''SupabaseTimeoutError''
         then err_message e
         else if message_includes e ''Failed to fetch'' \<or>
                 message_includes e ''NetworkError'' \<or>
                 message_includes e ''Connection timeout'' \<or>
                 message_includes e ''fetch is not defined''
         then Some cannot_connect_message
         else if message_includes e ''Database error saving new user'' \<or>
                 message_includes e ''unexpected_failure''
         then Some project_issue_message
         else if is_Error e then err_message e
         else Some ''Sign out failed'') \<and>
      connectionStatus (snd (signOut svc s)) =
        (if err_name e = Some ''SupabaseConnectionError'' \<or>
            err_name e = Some ''SupabaseTimeoutError'' \<or>
            message_includes e ''Failed to fetch'' \<or>
            message_includes e ''NetworkError'' \<or>
            message_includes e ''Connection timeout'' \<or>
            message_includes e ''fetch is not defined'' \<or>
            message_includes e ''Database error saving new user'' \<or>
            message_includes e ''unexpected_failure''
         then Disconnected
         else connectionStatus s)) \<and>
   cannot_connect_message \<noteq> [] \<and> project_issue_message \<noteq> []"
  by (simp add: signOut_def Let_def issue_def handleSupabaseError_def fixed_messages_nonempty
      split: outcome.splits)

text \<open>
  Ann signs out of a session shown as disconnected: once with a backend that answers,
  once with one that does not.
\<close>

theorem signOut_outcome_witness:
  "AuthService_signOut healthy_services = Resolved () \<and>
   user (snd (signOut healthy_services (signed_in\<lparr>connectionStatus := Disconnected\<rparr>))) = None \<and>
   profile (snd (signOut healthy_services (signed_in\<lparr>connectionStatus := Disconnected\<rparr>))) =
     None \<and>
   connectionStatus (snd (signOut healthy_services (signed_in\<lparr>connectionStatus := Disconnected\<rparr>))) =
     Connected \<and>
   AuthService_signOut unreachable_services = Rejected fetch_failure \<and>
   fst (signOut unreachable_services signed_in) = Some fetch_failure \<and>
   session (snd (signOut unreachable_services signed_in)) = Some ann_session \<and>
   error (snd (signOut unreachable_services signed_in)) = Some cannot_connect_message \<and>
   connectionStatus (snd (signOut unreachable_services signed_in)) = Disconnected"
proof -
  have h: "AuthService_signOut healthy_services = Resolved ()"
    by (simp add: healthy_services_def)
  have f: "AuthService_signOut unreachable_services = Rejected fetch_failure"
    by (simp add: unreachable_services_def)
  have s: "session signed_in = Some ann_session"
    by (simp add: signed_in_def)
  have m: "err_name fetch_failure = Some ''TypeError'' \<and>
           message_includes fetch_failure ''Failed to fetch''"
    by (simp add: fetch_failure_def message_includes_def)
  note t1 = signOut_outcome
    [where svc = healthy_services and s = "signed_in\<lparr>connectionStatus := Disconnected\<rparr>"]
  note t2 = signOut_outcome
    [where svc = unreachable_services and e = fetch_failure and s = signed_in]
  from t1 h have a: "user (snd (signOut healthy_services
                       (signed_in\<lparr>connectionStatus := Disconnected\<rparr>))) = None \<and>
                     profile (snd (signOut healthy_services
                       (signed_in\<lparr>connectionStatus := Disconnected\<rparr>))) = None \<and>
                     connectionStatus (snd (signOut healthy_services
                       (signed_in\<lparr>connectionStatus := Disconnected\<rparr>))) = Connected"
    by simp
  from t2 f s m have b: "fst (signOut unreachable_services signed_in) = Some fetch_failure \<and>
                         session (snd (signOut unreachable_services signed_in)) =
                           Some ann_session \<and>
                         error (snd (signOut unreachable_services signed_in)) =
                           Some cannot_connect_message \<and>
                         connectionStatus (snd (signOut unreachable_services signed_in)) =
                           Disconnected"
    by simp
  from h a f b show ?thesis
    by simp
qed

text \<open>
  The claim as stated fails when the call is made while disconnected and the backend does
  not answer: profile and user stay, and the status is \<^verbatim>\<open>disconnected\<close>.
\<close>

theorem signOut_backend_failure_counterexample:
  "connectionStatus (signed_in\<lparr>connectionStatus := Disconnected\<rparr>) = Disconnected \<and>
   profile (snd (signOut unreachable_services (signed_in\<lparr>connectionStatus := Disconnected\<rparr>))) =
     Some ann_profile \<and>
   user (snd (signOut unreachable_services (signed_in\<lparr>connectionStatus := Disconnected\<rparr>))) =
     Some ann \<and>
   connectionStatus
     (snd (signOut unreachable_services (signed_in\<lparr>connectionStatus := Disconnected\<rparr>))) =
     Disconnected"
  by (simp add: signOut_def Let_def issue_def handleSupabaseError_def unreachable_services_def
      signed_in_def fetch_failure_def message_includes_def)

section \<open>The background loads\<close>

text \<open>
  C5, as amended.  For every user id, \<^verbatim>\<open>loadUserProgress\<close> and
  \<^verbatim>\<open>checkSubjectGroupSelection\<close> leave the error field and the connection status as they
  were, whether they fail or not.  When the statistics call fails, the progress statistics
  and the subject progress keep their values; when the subject call fails after the
  statistics call succeeded, the subject progress keeps its value and the statistics are
  the fetched ones.  When the subject-group call fails, \<^verbatim>\<open>hasSubjectGroup\<close> is set to
  \<^verbatim>\<open>false\<close>.
\<close>

theorem background_load_failures:
  "error (loadUserProgress svc userId s) = error s \<and>
   connectionStatus (loadUserProgress svc userId s) = connectionStatus s \<and>
   (ProgressService_getUserProgress svc userId = Rejected e \<longrightarrow>
      progressStats (loadUserProgress svc userId s) = progressStats s \<and>
      subjectProgress (loadUserProgress svc userId s) = subjectProgress s) \<and>
   (ProgressService_getUserProgress svc userId = Resolved stats \<and>
    ProgressService_getSubjectProgress svc userId = Rejected e \<longrightarrow>
      progressStats (loadUserProgress svc userId s) = stats \<and>
      subjectProgress (loadUserProgress svc userId s) = subjectProgress s) \<and>
   error (checkSubjectGroupSelection svc userId s) = error s \<and>
   connectionStatus (checkSubjectGroupSelection svc userId s) = connectionStatus s \<and>
   (SubjectGroupService_getUserSubjectGroup svc userId = Rejected e \<longrightarrow>
      \<not> hasSubjectGroup (checkSubjectGroupSelection svc userId s))"
  by (simp add: loadUserProgress_def loadUserProgress_subjects_settled_def
      checkSubjectGroupSelection_def checkSubjectGroupSelection_settled_def issue_def
      split: outcome.splits)

text \<open>
  Ann's loads with no backend, and with a backend on which only the subject call fails.
\<close>

theorem background_load_failures_witness:
  "ProgressService_getUserProgress unreachable_services ''u-ann'' = Rejected fetch_failure \<and>
   SubjectGroupService_getUserSubjectGroup unreachable_services ''u-ann'' =
     Rejected fetch_failure \<and>
   progressStats (loadUserProgress unreachable_services ''u-ann'' signed_in) = Some ann_stats \<and>
   error (loadUserProgress unreachable_services ''u-ann'' signed_in) = None \<and>
   connectionStatus (checkSubjectGroupSelection unreachable_services ''u-ann'' signed_in) =
     Connected \<and>
   \<not> hasSubjectGroup (checkSubjectGroupSelection unreachable_services ''u-ann'' signed_in) \<and>
   progressStats
     (loadUserProgress
        (healthy_services\<lparr>ProgressService_getSubjectProgress := (\<lambda>userId. Rejected fetch_failure)\<rparr>)
        ''u-ann'' (initial_state None)) = Some ann_stats"
proof -
  have a: "ProgressService_getUserProgress unreachable_services ''u-ann'' =
             Rejected fetch_failure"
    by (simp add: unreachable_services_def)
  have b: "SubjectGroupService_getUserSubjectGroup unreachable_services ''u-ann'' =
             Rejected fetch_failure"
    by (simp add: unreachable_services_def)
  have c: "ProgressService_getUserProgress
             (healthy_services\<lparr>ProgressService_getSubjectProgress :=
                (\<lambda>userId. Rejected fetch_failure)\<rparr>) ''u-ann'' = Resolved (Some ann_stats) \<and>
           ProgressService_getSubjectProgress
             (healthy_services\<lparr>ProgressService_getSubjectProgress :=
                (\<lambda>userId. Rejected fetch_failure)\<rparr>) ''u-ann'' = Rejected fetch_failure"
    by (simp add: healthy_services_def)
  have d: "progressStats signed_in = Some ann_stats \<and> error signed_in = None \<and>
           connectionStatus signed_in = Connected"
    by (simp add: signed_in_def)
  show ?thesis
    using a b c d
      background_load_failures
        [where svc = unreachable_services and userId = "''u-ann''" and s = signed_in
           and e = fetch_failure]
      background_load_failures
        [where svc = "healthy_services\<lparr>ProgressService_getSubjectProgress :=
                        (\<lambda>userId. Rejected fetch_failure)\<rparr>"
           and userId = "''u-ann''" and s = "initial_state None" and e = fetch_failure
           and stats = "Some ann_stats"]
    by simp
qed

text \<open>
  The claim as stated fails for the subject-group load: Ann has a subject group on record,
  the load fails, and the flag does not keep its value.
\<close>

theorem subject_group_failure_counterexample:
  "hasSubjectGroup signed_in \<and>
   SubjectGroupService_getUserSubjectGroup unreachable_services ''u-ann'' =
     Rejected fetch_failure \<and>
   \<not> hasSubjectGroup (checkSubjectGroupSelection unreachable_services ''u-ann'' signed_in)"
  by (simp add: checkSubjectGroupSelection_def checkSubjectGroupSelection_settled_def issue_def
      unreachable_services_def signed_in_def)

section \<open>Session-change notifications\<close>

text \<open>
  An awaited loader is its start followed by its continuations, so the events below are
  the pieces the loaders are made of.
\<close>

lemma loadUserProfile_by_steps:
  "loadUserProfile svc userId s =
     step (issue (GetUserProfile userId) (s\<lparr>error := None\<rparr>))
       (ProfileSettled (AuthService_getUserProfile svc userId))"
  by (simp add: loadUserProfile_def)

lemma loadUserProgress_by_steps:
  "loadUserProgress svc userId s =
     (case ProgressService_getUserProgress svc userId of
        Rejected e \<Rightarrow>
          step (issue (GetUserProgress userId) s) (ProgressStatsSettled userId (Rejected e))
      | Resolved stats \<Rightarrow>
          run (issue (GetUserProgress userId) s)
            [ProgressStatsSettled userId (Resolved stats),
             SubjectProgressSettled (ProgressService_getSubjectProgress svc userId)])"
  by (simp add: loadUserProgress_def loadUserProgress_stats_settled_def run_def
      split: outcome.splits)

lemma checkSubjectGroupSelection_by_steps:
  "checkSubjectGroupSelection svc userId s =
     step (issue (GetUserSubjectGroup userId) s)
       (SubjectGroupSettled (SubjectGroupService_getUserSubjectGroup svc userId))"
  by (simp add: checkSubjectGroupSelection_def)

lemma run_snoc: "run s (es @ [e]) = step (run s es) e"
  by (simp add: run_def)

lemma applied_append: "applied (es @ fs) = applied es @ applied fs"
  by (induction es rule: applied.induct) simp_all

lemma applied_single: "applied [e] = [] \<or> (\<exists>sess. applied [e] = [sess])"
  by (cases e) simp_all

lemma step_identity:
  "session (step s e) = (case applied [e] of [] \<Rightarrow> session s | sess # _ \<Rightarrow> sess)"
  "user (step s e) =
     (case applied [e] of [] \<Rightarrow> user s | sess # _ \<Rightarrow> map_option session_user sess)"
  by (cases e; simp add: onAuthStateChange_handler_def loadUserProfile_settled_def
      loadUserProgress_stats_settled_def loadUserProgress_subjects_settled_def
      checkSubjectGroupSelection_settled_def issue_def Let_def
      split: outcome.splits option.splits)+

lemma run_identity:
  "session (run s es) = (if applied es = [] then session s else last (applied es)) \<and>
   user (run s es) =
     (if applied es = [] then user s else map_option session_user (last (applied es)))"
proof (induction es rule: rev_induct)
  case Nil
  show ?case by (simp add: run_def)
next
  case (snoc e es)
  from applied_single [of e] show ?case
  proof
    assume "applied [e] = []"
    with snoc show ?thesis
      by (simp add: run_snoc applied_append step_identity)
  next
    assume "\<exists>sess. applied [e] = [sess]"
    then obtain sess where "applied [e] = [sess]" ..
    then show ?thesis
      by (simp add: run_snoc applied_append step_identity)
  qed
qed

text \<open>
  C6.  Run any finite sequence of notifications, with the continuations of the loaders
  anywhere between them.  If one of the notifications was applied (it arrived while
  mounted), the final session is the payload of the last applied one and the final user
  is that session's user; if none was, both are what they were.  An applied notification
  without a session leaves no profile, no progress statistics, no subject progress and
  both flags false, and every applied notification ends with \<^verbatim>\<open>loading = false\<close>.
\<close>

theorem last_applied_notification_wins:
  "(applied es \<noteq> [] \<longrightarrow>
      session (run s es) = last (applied es) \<and>
      user (run s es) = map_option session_user (last (applied es))) \<and>
   (applied es = [] \<longrightarrow> session (run s es) = session s \<and> user (run s es) = user s) \<and>
   profile (onAuthStateChange_handler True event None s) = None \<and>
   progressStats (onAuthStateChange_handler True event None s) = None \<and>
   subjectProgress (onAuthStateChange_handler True event None s) = [] \<and>
   \<not> isNewUser (onAuthStateChange_handler True event None s) \<and>
   \<not> hasSubjectGroup (onAuthStateChange_handler True event None s) \<and>
   \<not> loading (onAuthStateChange_handler True event sess s)"
  using run_identity [of s es]
  by (simp add: onAuthStateChange_handler_def Let_def start_loads_def issue_def
      split: option.splits)

text \<open>
  Ann signs in, her profile arrives, and a sign-out notification comes after unmounting;
  then the same with the sign-out applied.
\<close>

theorem last_applied_notification_wins_witness:
  "applied [AuthStateChange True ''SIGNED_IN'' (Some ann_session),
            ProfileSettled (Resolved (Some ann_profile)),
            AuthStateChange False ''SIGNED_OUT'' None] \<noteq> [] \<and>
   user (run (initial_state None)
          [AuthStateChange True ''SIGNED_IN'' (Some ann_session),
           ProfileSettled (Resolved (Some ann_profile)),
           AuthStateChange False ''SIGNED_OUT'' None]) = Some ann \<and>
   session (run (initial_state None)
          [AuthStateChange True ''SIGNED_IN'' (Some ann_session),
           ProfileSettled (Resolved (Some ann_profile)),
           AuthStateChange True ''SIGNED_OUT'' None]) = None"
  using
    last_applied_notification_wins
      [where es = "[AuthStateChange True ''SIGNED_IN'' (Some ann_session),
                    ProfileSettled (Resolved (Some ann_profile)),
                    AuthStateChange False ''SIGNED_OUT'' None]"
         and s = "initial_state None"]
    last_applied_notification_wins
      [where es = "[AuthStateChange True ''SIGNED_IN'' (Some ann_session),
                    ProfileSettled (Resolved (Some ann_profile)),
                    AuthStateChange True ''SIGNED_OUT'' None]"
         and s = "initial_state None"]
  by (simp add: ann_session_def)

section \<open>The connection probe\<close>

text \<open>The verdict in terms of the tests the probe makes on the two messages.\<close>

lemma probe_verdict_by_tests:
  "(\<exists>b. testSupabaseConnection a d = Resolved b) \<and>
   (a = Rejected e \<longrightarrow> testSupabaseConnection a d = Resolved False) \<and>
   (a = Resolved (Some err) \<and> sb_message err = None \<longrightarrow>
      testSupabaseConnection a d = Resolved False) \<and>
   (a = Resolved (Some err) \<and> sb_message err = Some m \<and> auth_network_failure m \<longrightarrow>
      testSupabaseConnection a d = Resolved False) \<and>
   (a = Resolved None \<or>
    (a = Resolved (Some err) \<and> sb_message err = Some m \<and> \<not> auth_network_failure m) \<longrightarrow>
      (d = Rejected e \<longrightarrow> testSupabaseConnection a d = Resolved False) \<and>
      (d = Resolved None \<longrightarrow> testSupabaseConnection a d = Resolved True) \<and>
      (d = Resolved (Some derr) \<and> sb_message derr = None \<longrightarrow>
         testSupabaseConnection a d = Resolved False) \<and>
      (d = Resolved (Some derr) \<and> sb_message derr = Some dm \<longrightarrow>
         testSupabaseConnection a d =
           Resolved (\<not> db_network_failure dm \<and>
                     (setup_needed (sb_code derr) dm \<or> \<not> project_paused dm))))"
  by (auto simp add: testSupabaseConnection_def probe_try_def auth_check_failed_def
      db_check_verdict_def split: outcome.splits option.splits sum.splits bool.splits)

text \<open>
  C7, as amended.  The probe never throws and always resolves to a boolean.  It resolves
  to \<^verbatim>\<open>false\<close> when the session check rejects or throws, when the session reply's error
  has no message, and when that message contains \<^verbatim>\<open>'Failed to fetch'\<close>,
  \<^verbatim>\<open>'NetworkError'\<close> or \<^verbatim>\<open>'fetch is not defined'\<close>.  In every other case (the session
  reply has no error, or an error whose message contains none of these three) the
  database check decides: \<^verbatim>\<open>false\<close> when it rejects or throws or its error has no
  message, \<^verbatim>\<open>true\<close> when it has no error, and for an error with a message \<^verbatim>\<open>true\<close>
  exactly if the message contains none of \<^verbatim>\<open>'Failed to fetch'\<close>, \<^verbatim>\<open>'NetworkError'\<close>,
  \<^verbatim>\<open>'Connection timeout'\<close>, \<^verbatim>\<open>'fetch is not defined'\<close> and either the error says that
  tables are missing (code \<^verbatim>\<open>PGRST116\<close> or \<^verbatim>\<open>42P01\<close>, message containing
  \<^verbatim>\<open>'relation'\<close> or \<^verbatim>\<open>'does not exist'\<close>) or the message contains neither
  \<^verbatim>\<open>'Database error'\<close> nor \<^verbatim>\<open>'unexpected_failure'\<close>.
\<close>

theorem probe_verdict:
  "(\<exists>b. testSupabaseConnection a d = Resolved b) \<and>
   (a = Rejected e \<longrightarrow> testSupabaseConnection a d = Resolved False) \<and>
   (a = Resolved (Some err) \<and> sb_message err = None \<longrightarrow>
      testSupabaseConnection a d = Resolved False) \<and>
   (a = Resolved (Some err) \<and> sb_message err = Some m \<and>
    (str_includes m ''Failed to fetch'' \<or> str_includes m ''NetworkError'' \<or>
     str_includes m ''fetch is not defined'') \<longrightarrow>
      testSupabaseConnection a d = Resolved False) \<and>
   (a = Resolved None \<or>
    (a = Resolved (Some err) \<and> sb_message err = Some m \<and>
     \<not> (str_includes m ''Failed to fetch'' \<or> str_includes m ''NetworkError'' \<or>
        str_includes m ''fetch is not defined'')) \<longrightarrow>
      (d = Rejected e \<longrightarrow> testSupabaseConnection a d = Resolved False) \<and>
      (d = Resolved None \<longrightarrow> testSupabaseConnection a d = Resolved True) \<and>
      (d = Resolved (Some derr) \<and> sb_message derr = None \<longrightarrow>
         testSupabaseConnection a d = Resolved False) \<and>
      (d = Resolved (Some derr) \<and> sb_message derr = Some dm \<longrightarrow>
         testSupabaseConnection a d =
           Resolved
             (\<not> (str_includes dm ''Failed to fetch'' \<or> str_includes dm ''NetworkError'' \<or>
                 str_includes dm ''Connection timeout'' \<or>
                 str_includes dm ''fetch is not defined'') \<and>
              ((sb_code derr = Some ''PGRST116'' \<or> sb_code derr = Some ''42P01'' \<or>
                str_includes dm ''relation'' \<or> str_includes dm ''does not exist'') \<or>
               \<not> (str_includes dm ''Database error'' \<or>
                  str_includes dm ''unexpected_failure'')))))"
  by (rule probe_verdict_by_tests
      [unfolded auth_network_failure_def db_network_failure_def setup_needed_def
        project_paused_def])

text \<open>
  A backend that answers but has no tables yet, a backend that cannot be reached, and a
  session reply whose error says \<^verbatim>\<open>'Connection timeout'\<close> before a database reply
  without an error.
\<close>

theorem probe_verdict_witness:
  "testSupabaseConnection (Resolved None)
     (Resolved (Some \<lparr>sb_message = Some ''relation does not exist'',
                       sb_code = Some ''42P01''\<rparr>)) = Resolved True \<and>
   testSupabaseConnection (Rejected fetch_failure) (Rejected fetch_failure) = Resolved False \<and>
   testSupabaseConnection
     (Resolved (Some \<lparr>sb_message = Some ''Connection timeout'', sb_code = None\<rparr>))
     (Resolved None) = Resolved True"
proof -
  have n: "\<not> (str_includes ''relation does not exist'' ''Failed to fetch'' \<or>
              str_includes ''relation does not exist'' ''NetworkError'' \<or>
              str_includes ''relation does not exist'' ''Connection timeout'' \<or>
              str_includes ''relation does not exist'' ''fetch is not defined'')"
    by simp
  have c: "\<not> (str_includes ''Connection timeout'' ''Failed to fetch'' \<or>
              str_includes ''Connection timeout'' ''NetworkError'' \<or>
              str_includes ''Connection timeout'' ''fetch is not defined'')"
    by simp
  note t1 = probe_verdict
    [where a = "Resolved None"
       and d = "Resolved (Some \<lparr>sb_message = Some ''relation does not exist'',
                                 sb_code = Some ''42P01''\<rparr>)"
       and derr = "\<lparr>sb_message = Some ''relation does not exist'', sb_code = Some ''42P01''\<rparr>"
       and dm = "''relation does not exist''"]
  note t2 = probe_verdict
    [where a = "Rejected fetch_failure" and d = "Rejected fetch_failure" and e = fetch_failure]
  note t3 = probe_verdict
    [where a = "Resolved (Some \<lparr>sb_message = Some ''Connection timeout'', sb_code = None\<rparr>)"
       and d = "Resolved None"
       and err = "\<lparr>sb_message = Some ''Connection timeout'', sb_code = None\<rparr>"
       and m = "''Connection timeout''"]
  from t1 n have a1: "testSupabaseConnection (Resolved None)
     (Resolved (Some \<lparr>sb_message = Some ''relation does not exist'',
                       sb_code = Some ''42P01''\<rparr>)) = Resolved True"
    by simp
  from t2 have a2: "testSupabaseConnection (Rejected fetch_failure) (Rejected fetch_failure) =
                      Resolved False"
    by simp
  from t3 c have a3: "testSupabaseConnection
     (Resolved (Some \<lparr>sb_message = Some ''Connection timeout'', sb_code = None\<rparr>))
     (Resolved None) = Resolved True"
    by simp
  from a1 a2 a3 show ?thesis
    by (intro conjI)
qed

text \<open>
  The claim as stated fails for a backend that answers with a database error: the reply
  arrived, its message names no network failure, and the probe resolves to \<^verbatim>\<open>false\<close>.
\<close>

theorem probe_database_error_counterexample:
  "\<not> db_network_failure ''Database error saving new user'' \<and>
   testSupabaseConnection (Resolved None)
     (Resolved (Some \<lparr>sb_message = Some ''Database error saving new user'',
                       sb_code = None\<rparr>)) = Resolved False"
  by (simp add: testSupabaseConnection_def probe_try_def auth_check_failed_def
      db_check_verdict_def db_network_failure_def setup_needed_def project_paused_def)

section \<open>Progress initialisation\<close>

lemma one_row_of_key:
  "distinct (map f xs) \<Longrightarrow> k \<in> set (map f xs) \<Longrightarrow> length (filter (\<lambda>r. f r = k) xs) = 1"
proof (induction xs)
  case Nil
  then show ?case by simp
next
  case (Cons x xs)
  show ?case
  proof (cases "f x = k")
    case True
    with Cons.prems have "k \<notin> f ` set xs" by simp
    then have "\<forall>r \<in> set xs. f r \<noteq> k" by blast
    then have "filter (\<lambda>r. f r = k) xs = []" by (simp add: filter_empty_conv)
    with True show ?thesis by simp
  next
    case False
    with Cons show ?thesis by auto
  qed
qed

lemma initialize_keeps_unique:
  "distinct (map stats_user_id (user_progress_stats db)) \<Longrightarrow>
   distinct (map stats_user_id
     (user_progress_stats (initialize_user_progress new_id now userId db)))"
  by (simp add: initialize_user_progress_def insert_user_progress_stats_def default_row_def)

lemma initialize_noop_on_conflict:
  "userId \<in> set (map stats_user_id (user_progress_stats db)) \<Longrightarrow>
   initialize_user_progress new_id now userId db = db"
  by (simp add: initialize_user_progress_def insert_user_progress_stats_def)

lemma initialize_leaves_row:
  "userId \<in> set (map stats_user_id (user_progress_stats db)) \<or>
   (userId \<in> set (auth_users db) \<and> new_id \<notin> set (map stats_id (user_progress_stats db))) \<Longrightarrow>
   userId \<in> set (map stats_user_id
     (user_progress_stats (initialize_user_progress new_id now userId db)))"
  by (auto simp add: initialize_user_progress_def insert_user_progress_stats_def
      default_row_def)

text \<open>
  C9.  Take a table in which \<^verbatim>\<open>user_id\<close> is unique, and a user who has a row already or
  for whom the first insert can go through (the user exists and the generated id is
  new).  Running the initialisation twice for that user gives the table that running it
  once gives, and that table holds exactly one row for the user.
\<close>

theorem initialize_user_progress_idempotent:
  assumes "distinct (map stats_user_id (user_progress_stats db))"
    and "userId \<in> set (map stats_user_id (user_progress_stats db)) \<or>
         (userId \<in> set (auth_users db) \<and> id1 \<notin> set (map stats_id (user_progress_stats db)))"
  shows "initialize_user_progress id2 t2 userId (initialize_user_progress id1 t1 userId db) =
           initialize_user_progress id1 t1 userId db \<and>
         length (rows_of userId
           (initialize_user_progress id2 t2 userId
              (initialize_user_progress id1 t1 userId db))) = 1"
proof -
  let ?db1 = "initialize_user_progress id1 t1 userId db"
  have row: "userId \<in> set (map stats_user_id (user_progress_stats ?db1))"
    using assms(2) by (rule initialize_leaves_row)
  have uniq: "distinct (map stats_user_id (user_progress_stats ?db1))"
    using assms(1) by (rule initialize_keeps_unique)
  have noop: "initialize_user_progress id2 t2 userId ?db1 = ?db1"
    using row by (rule initialize_noop_on_conflict)
  have "length (rows_of userId ?db1) = 1"
    unfolding rows_of_def using uniq row by (rule one_row_of_key)
  with noop show ?thesis by simp
qed

text \<open>Ann's profile row is created in an empty table, and the trigger runs twice.\<close>

theorem initialize_user_progress_idempotent_witness:
  "distinct (map stats_user_id (user_progress_stats new_database)) \<and>
   ''u-ann'' \<in> set (auth_users new_database) \<and>
   ''row-1'' \<notin> set (map stats_id (user_progress_stats new_database)) \<and>
   user_progress_stats
     (initialize_user_progress ''row-2'' ''2025-06-25'' ''u-ann''
        (initialize_user_progress ''row-1'' ''2025-06-24'' ''u-ann'' new_database)) =
     [ann_stats] \<and>
   length (rows_of ''u-ann''
     (initialize_user_progress ''row-2'' ''2025-06-25'' ''u-ann''
        (initialize_user_progress ''row-1'' ''2025-06-24'' ''u-ann'' new_database))) = 1"
proof -
  have d: "distinct (map stats_user_id (user_progress_stats new_database))"
    by (simp add: new_database_def)
  have u: "''u-ann'' \<in> set (map stats_user_id (user_progress_stats new_database)) \<or>
           (''u-ann'' \<in> set (auth_users new_database) \<and>
            ''row-1'' \<notin> set (map stats_id (user_progress_stats new_database)))"
    by (simp add: new_database_def)
  have f: "user_progress_stats
             (initialize_user_progress ''row-1'' ''2025-06-24'' ''u-ann'' new_database) =
             [ann_stats]"
    by (simp add: initialize_user_progress_def insert_user_progress_stats_def
        new_database_def ann_stats_def)
  note t = initialize_user_progress_idempotent
    [OF d u, where ?id2.0 = "''row-2''" and ?t2.0 = "''2025-06-25''"
       and ?t1.0 = "''2025-06-24''"]
  from t f have g: "user_progress_stats
      (initialize_user_progress ''row-2'' ''2025-06-25'' ''u-ann''
         (initialize_user_progress ''row-1'' ''2025-06-24'' ''u-ann'' new_database)) =
      [ann_stats]"
    by simp
  have a: "''u-ann'' \<in> set (auth_users new_database)"
    by (simp add: new_database_def)
  have i: "''row-1'' \<notin> set (map stats_id (user_progress_stats new_database))"
    by (simp add: new_database_def)
  from t have l: "length (rows_of ''u-ann''
      (initialize_user_progress ''row-2'' ''2025-06-25'' ''u-ann''
         (initialize_user_progress ''row-1'' ''2025-06-24'' ''u-ann'' new_database))) = 1"
    by (rule conjunct2)
  from d a i g l show ?thesis
    by (intro conjI)
qed

end
